theory Spec2Isabelle
  imports Main "HOL-Library.Word"
begin

unbundle bit_operations_syntax

section \<open>Detouring::ClassProxy: data model\<close>

text \<open>
  A shallow embedding of \<^verbatim>\<open>classproxy.hpp\<close>. Pointers and \<^verbatim>\<open>size_t\<close> values are
  machine words of the pointer width \<open>'p\<close> (32 or 64 bits); the null pointer is \<open>0\<close>.
  The header is compiled in one of three ways, selected by the preprocessor; the
  embedding keeps the selection as a value.
\<close>

datatype build = MSVC_WIN64 | MSVC_WIN32 | NON_MSVC

text \<open>\<^verbatim>\<open>struct Member { void *address; size_t index; }\<close>\<close>

record (overloaded) 'p Member =
  address :: "'p::len word"
  index :: "'p word"

text \<open>
  Modelled from the spec: the constructor \<^verbatim>\<open>Member::Member( )\<close> is declared in the
  header and defined in a source file that is not part of it. The spec describes its
  result as the not-found Member: a null address, and a sentinel index that means
  not-found, which no comparison \<^verbatim>\<open>index < size\<close> accepts. The model takes the largest
  \<^verbatim>\<open>size_t\<close> value for the sentinel.
\<close>

definition Member_default :: "'p::len Member" where
  "Member_default = \<lparr>address = 0, index = - 1\<rparr>"

text \<open>
  Modelled from the spec: \<^verbatim>\<open>Member::Member( size_t idx, void *addr )\<close>, defined outside
  the header like the default constructor; a Member is its index and its address, so the
  constructor stores the two.
\<close>

definition Member_of :: "'p::len word \<Rightarrow> 'p word \<Rightarrow> 'p Member" where
  "Member_of idx addr = \<lparr>address = addr, index = idx\<rparr>"

text \<open>
  A pointer to member function, as a value. \<open>ref_value\<close> is the first pointer-sized
  word of its representation: the code address under MSVC; elsewhere the function pointer,
  or one plus the table offset in bytes for a virtual function. \<open>ref_adj\<close> is the
  second word of the two-word representation used outside MSVC, the adjustment of
  \<^verbatim>\<open>this\<close>; under MSVC the representation is taken to be the one word of a class with
  single inheritance, and \<open>ref_adj\<close> is not read.
\<close>

record (overloaded) 'p method_ref =
  ref_value :: "'p::len word"
  ref_adj :: "'p word"

text \<open>
  Every call of \<^verbatim>\<open>GetAddress\<close> copies the reference into a parameter object of its
  own, and outside MSVC the address of that object is what it answers. Where the object
  lies is given to each operation with its arguments, for each place it calls
  \<^verbatim>\<open>GetAddress\<close> from: on the original and on the substitute directly, and inside
  \<^verbatim>\<open>GetVirtualAddressInternal\<close> on behalf of the target table and of the substitute
  table. Two calls, also of one operation on one reference, need not be given the same
  addresses.
\<close>

datatype site = At_original | At_substitute | In_target_resolver | In_substitute_resolver

text \<open>
  What the code reads but does not own. \<open>byte_at\<close> is the byte view of the process
  memory that instruction decoding reads. \<open>IsExecutableAddress\<close> is declared in the
  header and defined elsewhere. \<open>vector_max_size\<close> is
  \<^verbatim>\<open>std::vector<void *>::max_size( )\<close>. The last four fields are
  \<^verbatim>\<open>Detouring::Hook\<close> of \<^verbatim>\<open>hook.hpp\<close>: a default-constructed handle, and
  \<^verbatim>\<open>Create\<close>, \<^verbatim>\<open>Enable\<close> and \<^verbatim>\<open>GetTrampoline\<close>, the first two returning the
  handle as they leave it. Nothing is assumed about them; the patching of code bytes that
  the collaborator performs is not represented.
\<close>

record (overloaded) ('p, 'h) env =
  build :: build
  byte_at :: "'p::len word \<Rightarrow> 8 word"
  IsExecutableAddress :: "'p word \<Rightarrow> bool"
  vector_max_size :: nat
  Hook_new :: 'h
  Hook_Create :: "'h \<Rightarrow> 'p word \<Rightarrow> 'p word \<Rightarrow> bool \<times> 'h"
  Hook_Enable :: "'h \<Rightarrow> bool \<times> 'h"
  Hook_GetTrampoline :: "'h \<Rightarrow> 'p word"

text \<open>
  The eight static members of \<^verbatim>\<open>ClassProxy<Target, Substitute>\<close>, under their own
  names, and the part of the process the operations change: \<open>memory\<close>, the
  pointer-sized cells of the process by their address (the table pointer of an object,
  the slots of a dispatch table), and \<open>protect_log\<close>, the calls of
  \<^verbatim>\<open>ProtectMemory( pMemory, uiLen, protect )\<close> in the order they were made.
  The two views of memory are not related to each other: the only stores of the code are
  pointer-sized stores into table slots, and the bytes that \<^verbatim>\<open>GetAddress\<close> and
  \<^verbatim>\<open>GetVirtualAddress\<close> decode are taken not to overlap them.
\<close>

record (overloaded) ('p, 'h) state =
  target_size :: "'p::len word"
  target_vtable :: "'p word"
  target_cache :: "'p word \<rightharpoonup> 'p Member"
  original_vtable :: "'p word list"
  substitute_size :: "'p word"
  substitute_vtable :: "'p word"
  substitute_cache :: "'p word \<rightharpoonup> 'p Member"
  hooks :: "'p word \<rightharpoonup> 'h"
  memory :: "'p word \<Rightarrow> 'p word"
  protect_log :: "('p word \<times> 'p word \<times> bool) list"

text \<open>The registry as the static initialisers leave it, over a given process memory.\<close>

definition initial_state :: "('p::len word \<Rightarrow> 'p word) \<Rightarrow> ('p, 'h) state" where
  "initial_state mem =
     \<lparr>target_size = 0, target_vtable = 0, target_cache = Map.empty, original_vtable = [],
      substitute_size = 0, substitute_vtable = 0, substitute_cache = Map.empty,
      hooks = Map.empty, memory = mem, protect_log = []\<rparr>"

text \<open>The outcome of \<^verbatim>\<open>Call\<close>: \<^verbatim>\<open>RetType( )\<close>, or a call of the code at an
  address with a receiver (\<open>Invokes code receiver\<close>). What the called code does is
  outside the model.\<close>

datatype 'a call_outcome = Returns_default | Invokes 'a 'a

section \<open>Reading memory\<close>

text \<open>\<^verbatim>\<open>sizeof( void * )\<close>, and the address of \<^verbatim>\<open>vtable[i]\<close>.\<close>

definition sizeof_ptr :: "'p::len word" where
  "sizeof_ptr = of_nat (LENGTH('p) div 8)"

definition slot :: "'p::len word \<Rightarrow> 'p word \<Rightarrow> 'p word" where
  "slot vtable i = vtable + i * sizeof_ptr"

text \<open>A 32-bit little-endian read from the byte view.\<close>

definition read32 :: "('p::len word \<Rightarrow> 8 word) \<Rightarrow> 'p word \<Rightarrow> 32 word" where
  "read32 bytes a = word_rcat [bytes (a + 3), bytes (a + 2), bytes (a + 1), bytes a]"

text \<open>\<^verbatim>\<open>GetVirtualTable\<close>: the first machine word of the instance.\<close>

definition GetVirtualTable :: "('p::len word \<Rightarrow> 'p word) \<Rightarrow> 'p word \<Rightarrow> 'p word" where
  "GetVirtualTable mem instance = mem instance"

section \<open>Resolving a method reference\<close>

text \<open>
  \<^verbatim>\<open>GetAddress\<close> as compiled under \<^verbatim>\<open>_MSC_VER\<close>: the address is the value read
  from the parameter object, \<^verbatim>\<open>*reinterpret_cast<void **>( pmethod )\<close>, and the bytes
  inspected are the code there. A leading \<^verbatim>\<open>0xE9\<close> is taken for a relative jump and
  followed once.
\<close>

definition GetAddress_msvc :: "('p::len, 'h) env \<Rightarrow> 'p method_ref \<Rightarrow> 'p word" where
  "GetAddress_msvc e method =
     (let addr = ref_value method;
          method_code = addr
      in if byte_at e method_code = 0xE9
         then method_code + 5 + scast (read32 (byte_at e) (method_code + 1))
         else addr)"

text \<open>
  \<^verbatim>\<open>GetAddress\<close> as compiled otherwise: the address is
  \<^verbatim>\<open>reinterpret_cast<void *>( pmethod )\<close>, the address \<open>pmethod\<close> of the parameter
  object itself, so the bytes inspected are the bytes of the reference's representation
  (little-endian, as the x86 opcodes the code looks for presuppose).
\<close>

definition rep_byte :: "'p::len method_ref \<Rightarrow> nat \<Rightarrow> 8 word" where
  "rep_byte method k =
     (let w = LENGTH('p) div 8
      in if k < w then ucast (drop_bit (8 * k) (ref_value method))
         else ucast (drop_bit (8 * (k - w)) (ref_adj method)))"

definition GetAddress_other :: "'p::len word \<Rightarrow> 'p method_ref \<Rightarrow> 'p word" where
  "GetAddress_other pmethod method =
     (let addr = pmethod;
          method_code = addr
      in if rep_byte method 0 = 0xE9
         then method_code + 5
                + scast (word_rcat [rep_byte method 4, rep_byte method 3, rep_byte method 2,
                                    rep_byte method 1] :: 32 word)
         else addr)"

text \<open>\<^verbatim>\<open>GetAddress\<close>, called with its parameter object at \<open>pmethod\<close>.\<close>

definition GetAddress :: "('p::len, 'h) env \<Rightarrow> 'p word \<Rightarrow> 'p method_ref \<Rightarrow> 'p word" where
  "GetAddress e pmethod method =
     (if build e = NON_MSVC then GetAddress_other pmethod method else GetAddress_msvc e method)"

text \<open>The linear scan \<^verbatim>\<open>for( size_t index = 0; index < size; ++index )\<close>, from a
  given index on.\<close>

function scan_vtable ::
  "('p::len word \<Rightarrow> 'p word) \<Rightarrow> 'p word \<Rightarrow> 'p word \<Rightarrow> 'p word \<Rightarrow> 'p word \<Rightarrow> 'p Member" where
  "scan_vtable mem vtable sz member i =
     (if i < sz
      then (if mem (slot vtable i) = member then Member_of i member
            else scan_vtable mem vtable sz member (i + 1))
      else Member_default)"
  by pat_completeness auto
termination
proof (relation "measure (\<lambda>(mem, vtable, sz, member, i). unat sz - unat i)")
  fix mem :: "'p::len word \<Rightarrow> 'p word" and vtable sz member i :: "'p word"
  assume lt: "i < sz"
  then have "unat sz - unat (i + 1) < unat sz - unat i"
    by unat_arith
  then show "((mem, vtable, sz, member, i + 1), (mem, vtable, sz, member, i))
      \<in> measure (\<lambda>(mem, vtable, sz, member, i). unat sz - unat i)"
    by simp
qed simp

declare scan_vtable.simps [simp del]

text \<open>
  \<^verbatim>\<open>GetVirtualAddress\<close>, the branch compiled under \<^verbatim>\<open>_MSC_VER\<close>: skip the load of
  the receiver's table pointer (\<^verbatim>\<open>0x48\<close> and three bytes under \<^verbatim>\<open>_WIN64\<close>,
  \<^verbatim>\<open>0x8B\<close> and two bytes otherwise), decode an indirect jump through the table, and
  scan the table when the bytes are not such a jump. Its own call of \<^verbatim>\<open>GetAddress\<close> is
  the one compiled under \<^verbatim>\<open>_MSC_VER\<close>, which does not depend on where its parameter
  object lies.
\<close>

definition GetVirtualAddress_msvc ::
  "('p::len, 'h) env \<Rightarrow> ('p word \<Rightarrow> 'p word) \<Rightarrow> 'p word \<Rightarrow> 'p word \<Rightarrow> 'p method_ref \<Rightarrow> 'p Member" where
  "GetVirtualAddress_msvc e mem vtable sz method =
     (let member = GetAddress_msvc e method;
          addr = (if build e = MSVC_WIN64
                  then (if byte_at e member = 0x48 then member + 3 else member)
                  else (if byte_at e member = 0x8B then member + 2 else member))
      in if byte_at e addr = 0xFF \<and> (drop_bit 4 (byte_at e (addr + 1))) AND 3 = 2
         then (let jumptype = drop_bit 6 (byte_at e (addr + 1));
                   offset = (if jumptype = 1 then ucast (byte_at e (addr + 2))
                             else if jumptype = 2 then read32 (byte_at e) (addr + 2)
                             else 0 :: 32 word);
                   idx = ucast offset div sizeof_ptr
               in if idx \<ge> sz then Member_default
                  else Member_of idx (mem (slot vtable idx)))
         else scan_vtable mem vtable sz member 0)"

text \<open>The branch compiled otherwise: the value of the reference, less one, over the
  slot width; the scan when that is not an index of the table.\<close>

definition GetVirtualAddress_other ::
  "('p::len word \<Rightarrow> 'p word) \<Rightarrow> 'p word \<Rightarrow> 'p word \<Rightarrow> 'p method_ref \<Rightarrow> 'p Member" where
  "GetVirtualAddress_other mem vtable sz method =
     (let addr = ref_value method;
          offset = (addr - 1) div sizeof_ptr
      in if offset \<ge> sz then scan_vtable mem vtable sz addr 0
         else Member_of offset (mem (slot vtable offset)))"

text \<open>\<^verbatim>\<open>GetVirtualAddress\<close>. A pointer to member function is null when the first
  word of its representation is null.\<close>

definition GetVirtualAddress ::
  "('p::len, 'h) env \<Rightarrow> ('p word \<Rightarrow> 'p word) \<Rightarrow> 'p word \<Rightarrow> 'p word \<Rightarrow> 'p method_ref \<Rightarrow> 'p Member" where
  "GetVirtualAddress e mem vtable sz method =
     (if vtable = 0 \<or> sz = 0 \<or> ref_value method = 0 then Member_default
      else if build e = NON_MSVC then GetVirtualAddress_other mem vtable sz method
      else GetVirtualAddress_msvc e mem vtable sz method)"

text \<open>\<^verbatim>\<open>GetVirtualAddressInternal\<close>: the resolver behind a cache keyed by
  \<^verbatim>\<open>GetAddress( method )\<close>, whose parameter object lies at \<open>pmethod\<close>. It returns the
  Member and the cache as it leaves it.\<close>

definition GetVirtualAddressInternal ::
  "('p::len, 'h) env \<Rightarrow> 'p word \<Rightarrow> ('p word \<Rightarrow> 'p word) \<Rightarrow> ('p word \<rightharpoonup> 'p Member) \<Rightarrow> 'p word
     \<Rightarrow> 'p word \<Rightarrow> 'p method_ref \<Rightarrow> 'p Member \<times> ('p word \<rightharpoonup> 'p Member)" where
  "GetVirtualAddressInternal e pmethod mem cache vtable sz method =
     (let member = GetAddress e pmethod method
      in case cache member of
           Some found \<Rightarrow> (found, cache)
         | None \<Rightarrow>
             (let resolved = GetVirtualAddress e mem vtable sz method
              in if index resolved < sz then (resolved, cache(member \<mapsto> resolved))
                 else (resolved, cache)))"

definition GetTargetVirtualAddress ::
  "('p::len, 'h) env \<Rightarrow> 'p word \<Rightarrow> ('p, 'h) state \<Rightarrow> 'p method_ref
     \<Rightarrow> 'p Member \<times> ('p, 'h) state" where
  "GetTargetVirtualAddress e pmethod s method =
     (let (found, cache) = GetVirtualAddressInternal e pmethod (memory s) (target_cache s)
                             (target_vtable s) (target_size s) method
      in (found, s\<lparr>target_cache := cache\<rparr>))"

definition GetSubstituteVirtualAddress ::
  "('p::len, 'h) env \<Rightarrow> 'p word \<Rightarrow> ('p, 'h) state \<Rightarrow> 'p method_ref
     \<Rightarrow> 'p Member \<times> ('p, 'h) state" where
  "GetSubstituteVirtualAddress e pmethod s method =
     (let (found, cache) = GetVirtualAddressInternal e pmethod (memory s) (substitute_cache s)
                             (substitute_vtable s) (substitute_size s) method
      in (found, s\<lparr>substitute_cache := cache\<rparr>))"

section \<open>Initialize\<close>

text \<open>The loop that fills \<^verbatim>\<open>original_vtable\<close>: push slots until a null slot or the
  vector's capacity.\<close>

function copy_vtable ::
  "nat \<Rightarrow> ('p::len word \<Rightarrow> 'p word) \<Rightarrow> 'p word \<Rightarrow> 'p word list \<Rightarrow> 'p word list" where
  "copy_vtable cap mem vtable vec =
     (if length vec < cap \<and> mem vtable \<noteq> 0
      then copy_vtable cap mem (vtable + sizeof_ptr) (vec @ [mem vtable])
      else vec)"
  by pat_completeness auto
termination
  by (relation "measure (\<lambda>(cap, mem, vtable, vec). cap - length vec)") auto

declare copy_vtable.simps [simp del]

text \<open>The loop that counts the substitute's slots up to the first null slot. It has no
  bound of its own, so it is a partial function: \<open>None\<close> is a walk that never ends.\<close>

partial_function (option) count_substitute ::
  "('p::len word \<Rightarrow> 'p word) \<Rightarrow> 'p word \<Rightarrow> 'p word \<Rightarrow> 'p word option" where
  "count_substitute mem vtable n =
     (if mem (slot vtable n) \<noteq> 0 then count_substitute mem vtable (n + 1) else Some n)"

text \<open>\<^verbatim>\<open>Initialize( instance, substitute )\<close>.\<close>

definition Initialize ::
  "('p::len, 'h) env \<Rightarrow> ('p, 'h) state \<Rightarrow> 'p word \<Rightarrow> 'p word \<Rightarrow> (bool \<times> ('p, 'h) state) option" where
  "Initialize e s instance substitute =
     (if target_vtable s \<noteq> 0 then Some (False, s)
      else
        (let s1 = s\<lparr>target_vtable := GetVirtualTable (memory s) instance\<rparr>
         in if target_vtable s1 = 0 \<or> \<not> IsExecutableAddress e (memory s1 (target_vtable s1))
            then Some (False, s1\<lparr>target_vtable := 0\<rparr>)
            else
              (let s2 = s1\<lparr>original_vtable :=
                          copy_vtable (vector_max_size e) (memory s1) (target_vtable s1)
                            (original_vtable s1)\<rparr>;
                   s3 = s2\<lparr>target_size := of_nat (length (original_vtable s2))\<rparr>;
                   s4 = s3\<lparr>substitute_vtable := GetVirtualTable (memory s3) substitute\<rparr>
               in case count_substitute (memory s4) (substitute_vtable s4) (substitute_size s4) of
                    None \<Rightarrow> None
                  | Some n \<Rightarrow> Some (True, s4\<lparr>substitute_size := n\<rparr>))))"

section \<open>IsHooked, Hook, UnHook, Call\<close>

text \<open>
  Each operation comes in two overloads: one for a pointer to member function of the
  target, and one, suffixed \<open>_fn\<close> here, for a plain function taking the target as its
  first argument, whose pointer is its address.
\<close>

definition IsHookedInternal_fn :: "('p::len, 'h) state \<Rightarrow> 'p word \<Rightarrow> bool" where
  "IsHookedInternal_fn s original = (hooks s original \<noteq> None)"

definition IsHookedInternal ::
  "('p::len, 'h) env \<Rightarrow> (site \<Rightarrow> 'p word) \<Rightarrow> ('p, 'h) state \<Rightarrow> 'p method_ref \<Rightarrow> bool \<times> ('p, 'h) state" where
  "IsHookedInternal e fr s original =
     (if hooks s (GetAddress e (fr At_original) original) \<noteq> None then (True, s)
      else
        (let (vtarget, s1) = GetTargetVirtualAddress e (fr In_target_resolver) s original
         in if index vtarget \<ge> target_size s1 then (False, s1)
            else (memory s1 (slot (target_vtable s1) (index vtarget))
                    \<noteq> original_vtable s1 ! unat (index vtarget), s1)))"

text \<open>The last lines of both \<^verbatim>\<open>HookInternal\<close> overloads: \<^verbatim>\<open>hooks[address]\<close> inserts a
  default-constructed handle, \<^verbatim>\<open>Create\<close> and \<^verbatim>\<open>Enable\<close> work on that element of the
  map.\<close>

definition install_hook ::
  "('p::len, 'h) env \<Rightarrow> ('p, 'h) state \<Rightarrow> 'p word \<Rightarrow> 'p word \<Rightarrow> bool \<times> ('p, 'h) state" where
  "install_hook e s addr subst =
     (let hook0 = Hook_new e;
          (created, hook1) = Hook_Create e hook0 addr subst
      in if \<not> created then (False, s\<lparr>hooks := (hooks s)(addr \<mapsto> hook1)\<rparr>)
         else
           (let (enabled, hook2) = Hook_Enable e hook1
            in (enabled, s\<lparr>hooks := (hooks s)(addr \<mapsto> hook2)\<rparr>)))"

definition HookInternal_fn ::
  "('p::len, 'h) env \<Rightarrow> (site \<Rightarrow> 'p word) \<Rightarrow> ('p, 'h) state \<Rightarrow> 'p word \<Rightarrow> 'p method_ref \<Rightarrow> bool \<times> ('p, 'h) state" where
  "HookInternal_fn e fr s original substitute =
     (let addr = original
      in if addr = 0 then (False, s)
         else if hooks s addr \<noteq> None then (False, s)
         else
           (let subst = GetAddress e (fr At_substitute) substitute
            in if subst = 0 then (False, s)
               else install_hook e s addr subst))"

text \<open>The store into a table slot between the two \<^verbatim>\<open>ProtectMemory\<close> calls.\<close>

definition write_slot :: "('p::len, 'h) state \<Rightarrow> 'p word \<Rightarrow> 'p word \<Rightarrow> ('p, 'h) state" where
  "write_slot s i v =
     (let cell = slot (target_vtable s) i
      in s\<lparr>memory := (memory s)(cell := v),
           protect_log := protect_log s @ [(cell, sizeof_ptr, False), (cell, sizeof_ptr, True)]\<rparr>)"

definition HookInternal ::
  "('p::len, 'h) env \<Rightarrow> (site \<Rightarrow> 'p word) \<Rightarrow> ('p, 'h) state \<Rightarrow> 'p method_ref \<Rightarrow> 'p method_ref \<Rightarrow> bool \<times> ('p, 'h) state" where
  "HookInternal e fr s original substitute =
     (let (target, s1) = GetTargetVirtualAddress e (fr In_target_resolver) s original
      in if index target < target_size s1
         then
           (if memory s1 (slot (target_vtable s1) (index target))
                 \<noteq> original_vtable s1 ! unat (index target)
            then (False, s1)
            else
              (let (subst, s2) = GetSubstituteVirtualAddress e (fr In_substitute_resolver) s1 substitute
               in if index subst \<ge> substitute_size s2 then (False, s2)
                  else (True, write_slot s2 (index target) (address subst))))
         else
           (let addr = GetAddress e (fr At_original) original
            in if addr = 0 then (False, s1)
               else if hooks s1 addr \<noteq> None then (False, s1)
               else
                 (let subst = GetAddress e (fr At_substitute) substitute
                  in if subst = 0 then (False, s1)
                     else install_hook e s1 addr subst)))"

definition UnHookInternal_fn :: "('p::len, 'h) state \<Rightarrow> 'p word \<Rightarrow> bool \<times> ('p, 'h) state" where
  "UnHookInternal_fn s original =
     (if hooks s original \<noteq> None then (True, s\<lparr>hooks := (hooks s)(original := None)\<rparr>)
      else (False, s))"

definition UnHookInternal ::
  "('p::len, 'h) env \<Rightarrow> (site \<Rightarrow> 'p word) \<Rightarrow> ('p, 'h) state \<Rightarrow> 'p method_ref \<Rightarrow> bool \<times> ('p, 'h) state" where
  "UnHookInternal e fr s original =
     (if hooks s (GetAddress e (fr At_original) original) \<noteq> None
      then (True, s\<lparr>hooks := (hooks s)(GetAddress e (fr At_original) original := None)\<rparr>)
      else
        (let (target, s1) = GetTargetVirtualAddress e (fr In_target_resolver) s original
         in if index target \<ge> target_size s1 then (False, s1)
            else
              (let vfunction = original_vtable s1 ! unat (index target)
               in if memory s1 (slot (target_vtable s1) (index target)) = vfunction
                  then (False, s1)
                  else (True, write_slot s1 (index target) vfunction))))"

text \<open>The first step of both \<^verbatim>\<open>CallInternal\<close> overloads: the trampoline of a registered
  hook, marked found by index 0 when it is not null.\<close>

definition from_trampoline ::
  "('p::len, 'h) env \<Rightarrow> ('p, 'h) state \<Rightarrow> 'p word \<Rightarrow> 'p Member \<Rightarrow> 'p Member" where
  "from_trampoline e s addr target =
     (case hooks s addr of
        None \<Rightarrow> target
      | Some hook \<Rightarrow>
          (let t = target\<lparr>address := Hook_GetTrampoline e hook\<rparr>
           in if address t \<noteq> 0 then t\<lparr>index := 0\<rparr> else t))"

text \<open>The step before last of both: the raw address, marked found by index 0 when it
  is not null.\<close>

definition from_raw_address :: "('p::len, 'h) state \<Rightarrow> 'p word \<Rightarrow> 'p Member \<Rightarrow> 'p Member" where
  "from_raw_address s addr target =
     (if index target \<ge> target_size s
      then (let t = target\<lparr>address := addr\<rparr>
            in if address t \<noteq> 0 then t\<lparr>index := 0\<rparr> else t)
      else target)"

text \<open>
  The last line of \<^verbatim>\<open>CallInternal\<close> for member functions: the call
  \<^verbatim>\<open>( instance->**typedfunc )( ... )\<close> through the Member reinterpreted as a pointer to
  member function. Under MSVC that is one word, the address, and the code there is called
  on the instance. Elsewhere it is two words, the function and the adjustment of
  \<^verbatim>\<open>this\<close>, which the Member fills with its address and its index: the receiver is the
  instance moved by \<open>index\<close> bytes, and an odd first word is one plus the offset of a slot
  in the table of that receiver (the encoding which the \<^verbatim>\<open>( address - 1 ) / sizeof( void * )\<close>
  of \<^verbatim>\<open>GetVirtualAddress\<close> reads), whose content is called.
\<close>

definition invoke_member ::
  "('p::len, 'h) env \<Rightarrow> ('p word \<Rightarrow> 'p word) \<Rightarrow> 'p word \<Rightarrow> 'p Member \<Rightarrow> 'p word call_outcome" where
  "invoke_member e mem instance target =
     (if build e = NON_MSVC
      then (let receiver = instance + index target
            in if address target AND 1 = 1
               then Invokes (mem (mem receiver + (address target - 1))) receiver
               else Invokes (address target) receiver)
      else Invokes (address target) instance)"

text \<open>
  \<^verbatim>\<open>CallInternal\<close>. The overload for plain functions calls the address of the Member it
  built with the instance as first argument. The arguments are passed on untouched and are
  left out.
\<close>

definition CallInternal_fn ::
  "('p::len, 'h) env \<Rightarrow> ('p, 'h) state \<Rightarrow> 'p word \<Rightarrow> 'p word \<Rightarrow> 'p word call_outcome" where
  "CallInternal_fn e s instance original =
     (let addr = original;
          target1 = from_trampoline e s addr Member_default;
          target2 = from_raw_address s addr target1
      in if index target2 \<ge> target_size s then Returns_default
         else Invokes (address target2) instance)"

definition CallInternal ::
  "('p::len, 'h) env \<Rightarrow> (site \<Rightarrow> 'p word) \<Rightarrow> ('p, 'h) state \<Rightarrow> 'p word \<Rightarrow> 'p method_ref
     \<Rightarrow> 'p word call_outcome \<times> ('p, 'h) state" where
  "CallInternal e fr s instance original =
     (let addr = GetAddress e (fr At_original) original;
          target1 = from_trampoline e s addr Member_default;
          (target2, s1) =
            (if index target1 \<ge> target_size s
             then (let (t, s') = GetTargetVirtualAddress e (fr In_target_resolver) s original
                   in (if index t < target_size s'
                       then t\<lparr>address := original_vtable s' ! unat (index t)\<rparr> else t, s'))
             else (target1, s));
          target3 = from_raw_address s1 addr target2
      in if index target3 \<ge> target_size s1 then (Returns_default, s1)
         else (invoke_member e (memory s1) instance target3, s1))"

section \<open>Sequences of operations\<close>

text \<open>The calls a consumer can make, with their arguments and, where the call reaches
  \<^verbatim>\<open>GetAddress\<close>, the addresses of its parameter objects; and a run of them from a
  state. A run is \<open>None\<close> when an \<^verbatim>\<open>Initialize\<close> in it does not return.\<close>

datatype ('a, 'r) operation =
    Op_Initialize 'a 'a
  | Op_Hook "site \<Rightarrow> 'a" 'r 'r
  | Op_Hook_fn "site \<Rightarrow> 'a" 'a 'r
  | Op_UnHook "site \<Rightarrow> 'a" 'r
  | Op_UnHook_fn 'a
  | Op_IsHooked "site \<Rightarrow> 'a" 'r
  | Op_IsHooked_fn 'a
  | Op_Call "site \<Rightarrow> 'a" 'a 'r
  | Op_Call_fn 'a 'a

fun apply_operation ::
  "('p::len, 'h) env \<Rightarrow> ('p, 'h) state \<Rightarrow> ('p word, 'p method_ref) operation
     \<Rightarrow> ('p, 'h) state option" where
  "apply_operation e s (Op_Initialize instance substitute) =
     map_option snd (Initialize e s instance substitute)"
| "apply_operation e s (Op_Hook fr original substitute) =
     Some (snd (HookInternal e fr s original substitute))"
| "apply_operation e s (Op_Hook_fn fr original substitute) =
     Some (snd (HookInternal_fn e fr s original substitute))"
| "apply_operation e s (Op_UnHook fr original) = Some (snd (UnHookInternal e fr s original))"
| "apply_operation e s (Op_UnHook_fn original) = Some (snd (UnHookInternal_fn s original))"
| "apply_operation e s (Op_IsHooked fr original) = Some (snd (IsHookedInternal e fr s original))"
| "apply_operation e s (Op_IsHooked_fn original) = Some s"
| "apply_operation e s (Op_Call fr instance original) =
     Some (snd (CallInternal e fr s instance original))"
| "apply_operation e s (Op_Call_fn instance original) = Some s"

fun run ::
  "('p::len, 'h) env \<Rightarrow> ('p, 'h) state \<Rightarrow> ('p word, 'p method_ref) operation list
     \<Rightarrow> ('p, 'h) state option" where
  "run e s [] = Some s"
| "run e s (x # xs) = (case apply_operation e s x of None \<Rightarrow> None | Some s' \<Rightarrow> run e s' xs)"

section \<open>A small process\<close>

text \<open>
  A 64-bit MSVC build. The target object at \<open>0x10000\<close> has its table at \<open>0x20000\<close>
  with three slots, the substitute object at \<open>0x11000\<close> has its table at \<open>0x30000\<close>
  with three slots; every other cell is null.
\<close>

definition ex_memory :: "64 word \<Rightarrow> 64 word" where
  "ex_memory =
     (\<lambda>a. 0)(0x10000 := 0x20000, 0x20000 := 0x401000, 0x20008 := 0x401100,
             0x20010 := 0x401200, 0x11000 := 0x30000, 0x30000 := 0x501000,
             0x30008 := 0x501100, 0x30010 := 0x501200)"

text \<open>
  The code bytes: at \<open>0x402000\<close> and at \<open>0x402100\<close> the thunk
  \<^verbatim>\<open>mov rax, [rcx]; jmp [rax+8]\<close> (\<^verbatim>\<open>48 8B 01 FF 60 08\<close>), which designates slot 1 of
  the target; at \<open>0x502000\<close> the same thunk for slot 1 of the substitute; every other
  byte is \<^verbatim>\<open>0xCC\<close>, so that \<open>0x403000\<close> and \<open>0x503000\<close> are the addresses of two
  functions that are in no table.
\<close>

definition ex_bytes :: "64 word \<Rightarrow> 8 word" where
  "ex_bytes =
     (\<lambda>a. 0xCC)(0x402000 := 0x48, 0x402001 := 0x8B, 0x402002 := 0x01, 0x402003 := 0xFF,
                0x402004 := 0x60, 0x402005 := 0x08,
                0x402100 := 0x48, 0x402101 := 0x8B, 0x402102 := 0x01, 0x402103 := 0xFF,
                0x402104 := 0x60, 0x402105 := 0x08,
                0x502000 := 0x48, 0x502001 := 0x8B, 0x502002 := 0x01, 0x502003 := 0xFF,
                0x502004 := 0x60, 0x502005 := 0x08)"

text \<open>
  The collaborator of the example: a handle is its trampoline address, null until
  \<^verbatim>\<open>Create\<close> succeeds; \<^verbatim>\<open>Create\<close> succeeds or fails as the flag says and puts the
  trampoline at \<open>0x700000\<close>; \<^verbatim>\<open>Enable\<close> succeeds.
\<close>

definition ex_env :: "bool \<Rightarrow> (64, 64 word) env" where
  "ex_env create_ok =
     \<lparr>build = MSVC_WIN64, byte_at = ex_bytes,
      IsExecutableAddress = (\<lambda>a. a \<noteq> 0), vector_max_size = 2 ^ 60,
      Hook_new = 0,
      Hook_Create = (\<lambda>h a b. if create_ok then (True, 0x700000) else (False, h)),
      Hook_Enable = (\<lambda>h. (True, h)),
      Hook_GetTrampoline = (\<lambda>h. h)\<rparr>"

definition ref_at :: "64 word \<Rightarrow> 64 method_ref" where
  "ref_at a = \<lparr>ref_value = a, ref_adj = 0\<rparr>"

text \<open>The parameter objects of \<^verbatim>\<open>GetAddress\<close>: at \<open>0x7FFE00\<close> when it is called
  from an operation, at \<open>0x7FFD00\<close> when it is called from inside the resolver.\<close>

definition ex_frames :: "site \<Rightarrow> 64 word" where
  "ex_frames where_called =
     (case where_called of
        At_original \<Rightarrow> 0x7FFE00 | At_substitute \<Rightarrow> 0x7FFE00
      | In_target_resolver \<Rightarrow> 0x7FFD00 | In_substitute_resolver \<Rightarrow> 0x7FFD00)"

text \<open>The same process compiled without \<^verbatim>\<open>_MSC_VER\<close>.\<close>

definition ex_env_other :: "(64, 64 word) env" where
  "ex_env_other = (ex_env True)\<lparr>build := NON_MSVC\<rparr>"

text \<open>The registry after \<^verbatim>\<open>Initialize\<close> on the two objects of the example.\<close>

definition ex_initialized :: "(64, 64 word) state" where
  "ex_initialized =
     \<lparr>target_size = 3, target_vtable = 0x20000, target_cache = Map.empty,
      original_vtable = [0x401000, 0x401100, 0x401200],
      substitute_size = 3, substitute_vtable = 0x30000, substitute_cache = Map.empty,
      hooks = Map.empty, memory = ex_memory, protect_log = []\<rparr>"

text \<open>The registry of the example after slot 1 of the target has been hooked through the
  thunk at \<open>0x402000\<close> to the method behind the thunk at \<open>0x502000\<close>.\<close>

definition ex_hooked :: "(64, 64 word) state" where
  "ex_hooked =
     ex_initialized
       \<lparr>target_cache := [0x402000 \<mapsto> Member_of 1 0x401100],
        substitute_cache := [0x502000 \<mapsto> Member_of 1 0x501100],
        memory := ex_memory(0x20008 := 0x501100),
        protect_log := [(0x20008, 8, False), (0x20008, 8, True)]\<rparr>"

section \<open>Facts about the resolver and the example\<close>

lemma sentinel_not_less: "\<not> index (Member_default :: 'p::len Member) < sz"
  by (simp add: Member_default_def)

lemma sentinel_ge: "sz \<le> index (Member_default :: 'p::len Member)"
  by (simp add: Member_default_def)

text \<open>Resolving against the target table touches the target cache and nothing else.\<close>

lemma GetTarget_fields:
  "target_size (snd (GetTargetVirtualAddress e p s m)) = target_size s"
  "target_vtable (snd (GetTargetVirtualAddress e p s m)) = target_vtable s"
  "original_vtable (snd (GetTargetVirtualAddress e p s m)) = original_vtable s"
  "substitute_size (snd (GetTargetVirtualAddress e p s m)) = substitute_size s"
  "substitute_vtable (snd (GetTargetVirtualAddress e p s m)) = substitute_vtable s"
  "substitute_cache (snd (GetTargetVirtualAddress e p s m)) = substitute_cache s"
  "hooks (snd (GetTargetVirtualAddress e p s m)) = hooks s"
  "memory (snd (GetTargetVirtualAddress e p s m)) = memory s"
  "protect_log (snd (GetTargetVirtualAddress e p s m)) = protect_log s"
  by (simp_all add: GetTargetVirtualAddress_def split: prod.splits)

lemma GetSubstitute_fields:
  "target_size (snd (GetSubstituteVirtualAddress e p s m)) = target_size s"
  "target_vtable (snd (GetSubstituteVirtualAddress e p s m)) = target_vtable s"
  "original_vtable (snd (GetSubstituteVirtualAddress e p s m)) = original_vtable s"
  "substitute_size (snd (GetSubstituteVirtualAddress e p s m)) = substitute_size s"
  "substitute_vtable (snd (GetSubstituteVirtualAddress e p s m)) = substitute_vtable s"
  "target_cache (snd (GetSubstituteVirtualAddress e p s m)) = target_cache s"
  "hooks (snd (GetSubstituteVirtualAddress e p s m)) = hooks s"
  "memory (snd (GetSubstituteVirtualAddress e p s m)) = memory s"
  "protect_log (snd (GetSubstituteVirtualAddress e p s m)) = protect_log s"
  by (simp_all add: GetSubstituteVirtualAddress_def split: prod.splits)

lemma sizeof_ptr_64: "(sizeof_ptr :: 64 word) = 8"
  by (simp add: sizeof_ptr_def)

lemma ex_memory_cells:
  "ex_memory 0x10000 = 0x20000" "ex_memory 0x11000 = 0x30000"
  "ex_memory 0x20000 = 0x401000" "ex_memory 0x20008 = 0x401100"
  "ex_memory 0x20010 = 0x401200" "ex_memory 0x20018 = 0"
  "ex_memory 0x30000 = 0x501000" "ex_memory 0x30008 = 0x501100"
  "ex_memory 0x30010 = 0x501200" "ex_memory 0x30018 = 0"
  by (simp_all add: ex_memory_def)

lemma ex_GetAddress:
  "GetAddress (ex_env b) p (ref_at 0x402000) = 0x402000"
  "GetAddress (ex_env b) p (ref_at 0x402100) = 0x402100"
  "GetAddress (ex_env b) p (ref_at 0x502000) = 0x502000"
  "GetAddress (ex_env b) p (ref_at 0x403000) = 0x403000"
  "GetAddress (ex_env b) p (ref_at 0x503000) = 0x503000"
  by (simp_all add: GetAddress_def GetAddress_msvc_def ex_env_def ref_at_def ex_bytes_def)

text \<open>\<^verbatim>\<open>GetAddress\<close> follows a relative jump at the start of the code once, backwards
  (\<^verbatim>\<open>E9 FB EF FF FF\<close> at \<open>0x404000\<close> leads to \<open>0x403000\<close>) and forwards.\<close>

lemma ex_GetAddress_jump:
  "GetAddress ((ex_env b)\<lparr>byte_at := ex_bytes(0x404000 := 0xE9, 0x404001 := 0xFB,
       0x404002 := 0xEF, 0x404003 := 0xFF, 0x404004 := 0xFF)\<rparr>) p (ref_at 0x404000) = 0x403000"
  "GetAddress ((ex_env b)\<lparr>byte_at := ex_bytes(0x404000 := 0xE9, 0x404001 := 0xFB,
       0x404002 := 0x0F, 0x404003 := 0x00, 0x404004 := 0x00)\<rparr>) p (ref_at 0x404000) = 0x405000"
  by (simp_all add: GetAddress_def GetAddress_msvc_def ex_env_def ref_at_def read32_def
      word_rcat_def)

text \<open>
  Compiled without \<^verbatim>\<open>_MSC_VER\<close>, \<^verbatim>\<open>GetAddress\<close> answers the address of its
  parameter object, whatever the reference is, unless the low byte of the reference is
  \<^verbatim>\<open>0xE9\<close>: then it adds five and the next four bytes of the reference to that address.
  The resolver reads the value of the reference as one plus a table offset before it scans
  for it as an address.
\<close>

lemma GetAddress_other_storage:
  "build e = NON_MSVC \<Longrightarrow> rep_byte method 0 \<noteq> 0xE9 \<Longrightarrow> GetAddress e pmethod method = pmethod"
  by (simp add: GetAddress_def GetAddress_other_def)

lemma GetAddress_msvc_storage:
  "build e \<noteq> NON_MSVC \<Longrightarrow> GetAddress e pmethod method = GetAddress e pmethod' method"
  by (simp add: GetAddress_def)

lemma ex_rep_byte:
  "rep_byte (ref_at 9) 0 = 9" "rep_byte (ref_at 0x403000) 0 = 0"
  "rep_byte (ref_at 0x401200) 0 = 0"
  by (simp_all add: rep_byte_def ref_at_def)

lemma ex_GetAddress_other:
  "GetAddress ex_env_other p (ref_at 9) = p"
  "GetAddress ex_env_other p (ref_at 0x403000) = p"
  "GetAddress ex_env_other p (ref_at 0x401200) = p"
  by (simp_all add: GetAddress_other_storage ex_rep_byte ex_env_other_def ex_env_def)

lemma ex_GetAddress_other_jump:
  "GetAddress ex_env_other 0x7FFE00 (ref_at 0x12345678E9) = 0x7FFE00 + 5 + 0x12345678"
  by (simp add: GetAddress_def GetAddress_other_def rep_byte_def ref_at_def ex_env_other_def
      ex_env_def word_rcat_def)

lemma ex_resolve_other:
  "GetVirtualAddress ex_env_other mem 0x20000 3 (ref_at 9) = Member_of 1 (mem 0x20008)"
  "GetVirtualAddress ex_env_other ex_memory 0x20000 3 (ref_at 0x401200)
     = Member_of 2 0x401200"
  "GetVirtualAddress ex_env_other ex_memory 0x20000 3 (ref_at 0x403000)
     = Member_default"
  by (simp_all add: GetVirtualAddress_def GetVirtualAddress_other_def ex_env_other_def ex_env_def
      ref_at_def sizeof_ptr_64 slot_def Let_def ex_memory_cells scan_vtable.simps [of ex_memory]
      word_le_nat_alt word_less_nat_alt)

text \<open>A 32-bit MSVC build: the thunk \<^verbatim>\<open>mov eax, [ecx]; jmp [eax+8]\<close> with a 32-bit
  offset (\<^verbatim>\<open>8B 01 FF A0 08 00 00 00\<close>) designates slot 2 of a table of 4-byte slots.\<close>

lemma ex_resolve_win32:
  "GetVirtualAddress
     \<lparr>build = MSVC_WIN32,
      byte_at = (\<lambda>a. 0xCC)(0x402000 := 0x8B, 0x402001 := 0x01, 0x402002 := 0xFF,
                             0x402003 := 0xA0, 0x402004 := 0x08, 0x402005 := 0x00,
                             0x402006 := 0x00, 0x402007 := 0x00),
      IsExecutableAddress = (\<lambda>a. a \<noteq> 0), vector_max_size = 2 ^ 28, Hook_new = (0 :: 32 word),
      Hook_Create = (\<lambda>h a b. (True, h)), Hook_Enable = (\<lambda>h. (True, h)),
      Hook_GetTrampoline = (\<lambda>h. h)\<rparr>
     ((\<lambda>a. 0)(0x20000 := 0x401000, 0x20004 := 0x401100, 0x20008 := 0x401200))
     0x20000 3 \<lparr>ref_value = 0x402000, ref_adj = 0\<rparr>
   = (Member_of 2 0x401200 :: 32 Member)"
  by (simp add: GetVirtualAddress_def GetVirtualAddress_msvc_def GetAddress_msvc_def sizeof_ptr_def
      slot_def Let_def read32_def word_rcat_def word_le_nat_alt)

text \<open>Before \<^verbatim>\<open>Initialize\<close> nothing resolves to a slot.\<close>

lemma GetTarget_uninitialized:
  "target_size s = 0 \<Longrightarrow> target_cache s (GetAddress e p m) = None \<Longrightarrow>
     GetTargetVirtualAddress e p s m = (Member_default, s)"
  by (simp add: GetTargetVirtualAddress_def GetVirtualAddressInternal_def GetVirtualAddress_def
      sentinel_not_less)

text \<open>Hooking the function at \<open>0x403000\<close> before \<^verbatim>\<open>Initialize\<close> registers a hook
  for its address.\<close>

lemma ex_Hook_before_Initialize:
  "HookInternal (ex_env True) ex_frames (initial_state ex_memory) (ref_at 0x403000) (ref_at 0x503000) =
     (True, (initial_state ex_memory)\<lparr>hooks := [0x403000 \<mapsto> 0x700000]\<rparr>)"
proof -
  have "GetTargetVirtualAddress (ex_env True) (ex_frames In_target_resolver) (initial_state ex_memory) (ref_at 0x403000) =
      (Member_default, initial_state ex_memory)"
    by (rule GetTarget_uninitialized) (simp_all add: initial_state_def)
  then show ?thesis
    by (simp add: HookInternal_def sentinel_not_less ex_GetAddress install_hook_def)
      (simp add: initial_state_def ex_env_def)
qed

text \<open>How the references of the example resolve: the thunks to slot 1 of their table,
  whatever the table holds, and the function at \<open>0x403000\<close> to nothing.\<close>

lemma ex_resolve:
  "GetVirtualAddress (ex_env b) mem 0x20000 3 (ref_at 0x402000) = Member_of 1 (mem 0x20008)"
  "GetVirtualAddress (ex_env b) mem 0x20000 3 (ref_at 0x402100) = Member_of 1 (mem 0x20008)"
  "GetVirtualAddress (ex_env b) mem 0x30000 3 (ref_at 0x502000) = Member_of 1 (mem 0x30008)"
  by (simp_all add: GetVirtualAddress_def GetVirtualAddress_msvc_def GetAddress_msvc_def
      ex_env_def ref_at_def ex_bytes_def sizeof_ptr_64 slot_def Let_def word_le_nat_alt)

lemma ex_resolve_none:
  "GetVirtualAddress (ex_env b) ex_memory 0x20000 3 (ref_at 0x403000) = Member_default"
  by (simp add: GetVirtualAddress_def GetVirtualAddress_msvc_def GetAddress_msvc_def ex_env_def
      ref_at_def ex_bytes_def sizeof_ptr_64 slot_def Let_def scan_vtable.simps [of ex_memory]
      ex_memory_cells word_less_nat_alt)

lemma ex_target_miss:
  "target_vtable s = 0x20000 \<Longrightarrow> target_size s = 3 \<Longrightarrow> target_cache s 0x402000 = None \<Longrightarrow>
   GetTargetVirtualAddress (ex_env b) p s (ref_at 0x402000) =
     (Member_of 1 (memory s 0x20008),
      s\<lparr>target_cache := (target_cache s)(0x402000 \<mapsto> Member_of 1 (memory s 0x20008))\<rparr>)"
  by (simp add: GetTargetVirtualAddress_def GetVirtualAddressInternal_def ex_GetAddress ex_resolve
      Member_of_def word_less_nat_alt Let_def)

lemma ex_target_none:
  "target_vtable s = 0x20000 \<Longrightarrow> target_size s = 3 \<Longrightarrow> target_cache s 0x403000 = None \<Longrightarrow>
   memory s = ex_memory \<Longrightarrow>
   GetTargetVirtualAddress (ex_env b) p s (ref_at 0x403000) = (Member_default, s)"
  by (simp add: GetTargetVirtualAddress_def GetVirtualAddressInternal_def ex_GetAddress
      ex_resolve_none sentinel_not_less Let_def)

lemma GetTarget_hit:
  "target_cache s (GetAddress e p m) = Some x \<Longrightarrow> GetTargetVirtualAddress e p s m = (x, s)"
  by (simp add: GetTargetVirtualAddress_def GetVirtualAddressInternal_def)

lemma ex_substitute_miss:
  "substitute_vtable s = 0x30000 \<Longrightarrow> substitute_size s = 3 \<Longrightarrow>
   substitute_cache s 0x502000 = None \<Longrightarrow>
   GetSubstituteVirtualAddress (ex_env b) p s (ref_at 0x502000) =
     (Member_of 1 (memory s 0x30008),
      s\<lparr>substitute_cache := (substitute_cache s)(0x502000 \<mapsto> Member_of 1 (memory s 0x30008))\<rparr>)"
  by (simp add: GetSubstituteVirtualAddress_def GetVirtualAddressInternal_def ex_GetAddress
      ex_resolve Member_of_def word_less_nat_alt Let_def)

lemma ex_target_miss2:
  "target_vtable s = 0x20000 \<Longrightarrow> target_size s = 3 \<Longrightarrow> target_cache s 0x402100 = None \<Longrightarrow>
   GetTargetVirtualAddress (ex_env b) p s (ref_at 0x402100) =
     (Member_of 1 (memory s 0x20008),
      s\<lparr>target_cache := (target_cache s)(0x402100 \<mapsto> Member_of 1 (memory s 0x20008))\<rparr>)"
  by (simp add: GetTargetVirtualAddress_def GetVirtualAddressInternal_def ex_GetAddress ex_resolve
      Member_of_def word_less_nat_alt Let_def)

lemma ex_copy_vtable:
  "3 < cap \<Longrightarrow> copy_vtable cap ex_memory 0x20000 [] = [0x401000, 0x401100, 0x401200]"
  by (simp add: copy_vtable.simps [of _ ex_memory] ex_memory_cells sizeof_ptr_64)

lemma ex_count_substitute: "count_substitute ex_memory 0x30000 0 = Some 3"
  by (simp add: count_substitute.simps [of ex_memory] slot_def ex_memory_cells sizeof_ptr_64)

lemma ex_Initialize:
  "hooks s = h \<Longrightarrow>
   Initialize (ex_env True) ((initial_state ex_memory)\<lparr>hooks := h\<rparr>) 0x10000 0x11000 =
     Some (True, ex_initialized\<lparr>hooks := h\<rparr>)"
  by (simp add: Initialize_def initial_state_def GetVirtualTable_def ex_memory_cells
      ex_copy_vtable ex_count_substitute ex_initialized_def ex_env_def)

text \<open>Runs of \<^verbatim>\<open>Hook\<close> in the example.\<close>

lemma ex_Hook_slot:
  "HookInternal (ex_env True) ex_frames ex_initialized (ref_at 0x402000) (ref_at 0x502000) = (True, ex_hooked)"
proof -
  have t: "GetTargetVirtualAddress (ex_env True) (ex_frames In_target_resolver) ex_initialized (ref_at 0x402000) =
      (Member_of 1 0x401100,
       ex_initialized\<lparr>target_cache := [0x402000 \<mapsto> Member_of 1 0x401100]\<rparr>)"
    by (simp add: ex_target_miss ex_initialized_def ex_memory_cells)
  have u: "GetSubstituteVirtualAddress (ex_env True) (ex_frames In_substitute_resolver)
       (ex_initialized\<lparr>target_cache := [0x402000 \<mapsto> Member_of 1 0x401100]\<rparr>) (ref_at 0x502000) =
      (Member_of 1 0x501100,
       ex_initialized\<lparr>target_cache := [0x402000 \<mapsto> Member_of 1 0x401100],
         substitute_cache := [0x502000 \<mapsto> Member_of 1 0x501100]\<rparr>)"
    by (simp add: ex_substitute_miss ex_initialized_def ex_memory_cells)
  show ?thesis
    by (simp add: HookInternal_def t u Let_def)
      (simp add: ex_initialized_def ex_hooked_def write_slot_def slot_def sizeof_ptr_64 Let_def
        Member_of_def ex_memory_cells word_less_nat_alt word_le_nat_alt)
qed

lemma ex_Hook_thunk_before_Initialize:
  "HookInternal (ex_env True) ex_frames (initial_state ex_memory) (ref_at 0x402000) (ref_at 0x502000) =
     (True, (initial_state ex_memory)\<lparr>hooks := [0x402000 \<mapsto> 0x700000]\<rparr>)"
proof -
  have "GetTargetVirtualAddress (ex_env True) (ex_frames In_target_resolver) (initial_state ex_memory) (ref_at 0x402000) =
      (Member_default, initial_state ex_memory)"
    by (rule GetTarget_uninitialized) (simp_all add: initial_state_def)
  then show ?thesis
    by (simp add: HookInternal_def sentinel_not_less ex_GetAddress install_hook_def)
      (simp add: initial_state_def ex_env_def)
qed

lemma ex_Hook_Create_fails:
  "HookInternal (ex_env False) ex_frames ex_initialized (ref_at 0x403000) (ref_at 0x503000) =
     (False, ex_initialized\<lparr>hooks := [0x403000 \<mapsto> 0]\<rparr>)"
proof -
  have "GetTargetVirtualAddress (ex_env False) (ex_frames In_target_resolver) ex_initialized (ref_at 0x403000) =
      (Member_default, ex_initialized)"
    by (rule ex_target_none) (simp_all add: ex_initialized_def)
  then show ?thesis
    by (simp add: HookInternal_def sentinel_not_less ex_GetAddress install_hook_def)
      (simp add: ex_initialized_def ex_env_def)
qed

section \<open>IsHooked\<close>

text \<open>
  C5. \<^verbatim>\<open>IsHooked( original )\<close> is true if and only if a hook is registered in the hook
  map for the address \<^verbatim>\<open>GetAddress( original )\<close>, or the reference resolves to a slot of
  the target table (an index below \<^verbatim>\<open>target_size\<close>) whose current value differs from the
  snapshot at that index. In every other case, also when the reference resolves to
  nothing, it is false.
\<close>

theorem IsHooked_iff:
  "fst (IsHookedInternal e fr s original) \<longleftrightarrow>
     hooks s (GetAddress e (fr At_original) original) \<noteq> None \<or>
     (let vtarget = fst (GetTargetVirtualAddress e (fr In_target_resolver) s original)
      in index vtarget < target_size s \<and>
         memory s (slot (target_vtable s) (index vtarget))
           \<noteq> original_vtable s ! unat (index vtarget))"
  using GetTarget_fields [of e "fr In_target_resolver" s original]
  by (auto simp add: IsHookedInternal_def Let_def split: prod.splits)

text \<open>In the example the thunk to slot 1 is not hooked after \<^verbatim>\<open>Initialize\<close>, it is
  once the slot holds another address, and the function at \<open>0x403000\<close> is once a hook
  is registered for it.\<close>

theorem IsHooked_iff_witness:
  "fst (IsHookedInternal (ex_env True) ex_frames ex_initialized (ref_at 0x402000)) = False \<and>
   fst (IsHookedInternal (ex_env True) ex_frames (write_slot ex_initialized 1 0x501100) (ref_at 0x402000)) = True \<and>
   fst (IsHookedInternal (ex_env True) ex_frames (ex_initialized\<lparr>hooks := [0x403000 \<mapsto> 0x700000]\<rparr>) (ref_at 0x403000)) = True"
proof -
  have a: "GetTargetVirtualAddress (ex_env True) (ex_frames In_target_resolver) ex_initialized (ref_at 0x402000) =
      (Member_of 1 0x401100,
       ex_initialized\<lparr>target_cache := [0x402000 \<mapsto> Member_of 1 0x401100]\<rparr>)"
    by (simp add: ex_target_miss ex_initialized_def ex_memory_cells)
  have b: "GetTargetVirtualAddress (ex_env True) (ex_frames In_target_resolver) (write_slot ex_initialized 1 0x501100) (ref_at 0x402000) =
      (Member_of 1 0x501100,
       (write_slot ex_initialized 1 0x501100)\<lparr>target_cache := [0x402000 \<mapsto> Member_of 1 0x501100]\<rparr>)"
    by (simp add: ex_target_miss ex_initialized_def write_slot_def slot_def sizeof_ptr_64 Let_def)
  show ?thesis
    using IsHooked_iff [of "ex_env True" ex_frames ex_initialized "ref_at 0x402000"]
      IsHooked_iff [of "ex_env True" ex_frames "write_slot ex_initialized 1 0x501100" "ref_at 0x402000"]
      IsHooked_iff [of "ex_env True" ex_frames "ex_initialized\<lparr>hooks := [0x403000 \<mapsto> 0x700000]\<rparr>" "ref_at 0x403000"]
    apply (simp add: a b ex_GetAddress)
    apply (simp add: ex_initialized_def write_slot_def slot_def sizeof_ptr_64 Let_def Member_of_def
      ex_memory_cells word_less_nat_alt)
    done
qed

section \<open>Call before Initialize\<close>

text \<open>
  C9. While \<^verbatim>\<open>target_size\<close> is zero, \<^verbatim>\<open>Call\<close> returns \<^verbatim>\<open>RetType( )\<close> and invokes
  nothing, for every instance and every reference, in both overloads: also when a hook
  with a trampoline is registered for the address, and also when the address is not null.
\<close>

theorem Call_uninitialized:
  "target_size s = 0 \<Longrightarrow>
     fst (CallInternal e fr s instance original) = Returns_default \<and>
     CallInternal_fn e s instance func = Returns_default"
  using GetTarget_fields [of e "fr In_target_resolver" s original]
  by (auto simp add: CallInternal_def CallInternal_fn_def from_raw_address_def Let_def
      split: prod.splits)

text \<open>The hook registered before \<^verbatim>\<open>Initialize\<close> in the example has the trampoline
  \<open>0x700000\<close>, and the address \<open>0x403000\<close> is not null; the call returns the default.\<close>

theorem Call_uninitialized_witness:
  "target_size (snd (HookInternal (ex_env True) ex_frames (initial_state ex_memory)
       (ref_at 0x403000) (ref_at 0x503000))) = 0 \<and>
   hooks (snd (HookInternal (ex_env True) ex_frames (initial_state ex_memory)
       (ref_at 0x403000) (ref_at 0x503000))) (GetAddress (ex_env True) (ex_frames At_original) (ref_at 0x403000))
     = Some 0x700000 \<and>
   Hook_GetTrampoline (ex_env True) 0x700000 = 0x700000 \<and>
   fst (CallInternal (ex_env True) ex_frames
         (snd (HookInternal (ex_env True) ex_frames (initial_state ex_memory)
            (ref_at 0x403000) (ref_at 0x503000)))
         0x10000 (ref_at 0x403000)) = Returns_default \<and>
   CallInternal_fn (ex_env True)
         (snd (HookInternal (ex_env True) ex_frames (initial_state ex_memory)
            (ref_at 0x403000) (ref_at 0x503000)))
         0x10000 0x403000 = Returns_default"
proof -
  let ?s = "(initial_state ex_memory)\<lparr>hooks := [0x403000 \<mapsto> 0x700000]\<rparr> :: (64, 64 word) state"
  have z: "target_size ?s = 0"
    by (simp add: initial_state_def)
  have t: "Hook_GetTrampoline (ex_env True) 0x700000 = 0x700000"
    by (simp add: ex_env_def)
  show ?thesis
    using Call_uninitialized [OF z, of "ex_env True" ex_frames "0x10000" "ref_at 0x403000" "0x403000"] z t
    by (simp add: ex_Hook_before_Initialize ex_GetAddress)
qed

section \<open>Call\<close>

text \<open>Under MSVC the call through the Member is a call of its address on the instance;
  elsewhere it is that for index 0 and an even address only.\<close>

lemma Member_rebuilt:
  "(target :: 'p::len Member)\<lparr>address := a, index := i\<rparr> = \<lparr>address = a, index = i\<rparr>"
  by (cases target) simp

lemma invoke_member_msvc:
  "build e \<noteq> NON_MSVC \<Longrightarrow> invoke_member e mem instance target = Invokes (address target) instance"
  by (simp add: invoke_member_def)

lemma invoke_member_other:
  "build e = NON_MSVC \<Longrightarrow> address target AND 1 \<noteq> 1 \<Longrightarrow>
   invoke_member e mem instance target = Invokes (address target) (instance + index target)"
  by (simp add: invoke_member_def)

text \<open>
  What \<^verbatim>\<open>Call\<close> does once the target table has been captured (\<^verbatim>\<open>target_size\<close> is
  not zero). It picks the code in this order: the trampoline of the hook registered for the
  address \<^verbatim>\<open>GetAddress( original )\<close>, when there is one and it is not null; else the
  snapshot value at the index the reference resolves to, when that index is below
  \<^verbatim>\<open>target_size\<close> (never the current value of the slot); else the address itself, when
  it is not null; else it returns \<^verbatim>\<open>RetType( )\<close>. The overload for member functions
  calls through the Member it has built, with index 0 beside a trampoline or the address
  and with the resolved index beside a snapshot value. The overload for plain functions
  does the same without the second step and calls the code on the instance. Only the
  resolution can change the state, and only the target cache.
\<close>

lemma Call_after_Initialize:
  assumes "0 < target_size s"
  shows
    "(let raw = GetAddress e (fr At_original) original;
          trampoline = (case hooks s raw of None \<Rightarrow> 0 | Some hook \<Rightarrow> Hook_GetTrampoline e hook);
          (t, s') = GetTargetVirtualAddress e (fr In_target_resolver) s original
      in CallInternal e fr s instance original =
           (if trampoline \<noteq> 0
            then (invoke_member e (memory s) instance \<lparr>address = trampoline, index = 0\<rparr>, s)
            else if index t < target_size s
            then (invoke_member e (memory s) instance
                    (t\<lparr>address := original_vtable s ! unat (index t)\<rparr>), s')
            else if raw \<noteq> 0
            then (invoke_member e (memory s) instance \<lparr>address = raw, index = 0\<rparr>, s')
            else (Returns_default, s')))
     \<and> (let trampoline = (case hooks s func of None \<Rightarrow> 0 | Some hook \<Rightarrow> Hook_GetTrampoline e hook)
        in CallInternal_fn e s instance func =
           (if trampoline \<noteq> 0 then Invokes trampoline instance
            else if func \<noteq> 0 then Invokes func instance
            else Returns_default))"
proof -
  have pos: "\<not> target_size s \<le> 0"
    using assms by (simp add: word_greater_zero_iff)
  have f: "target_size (snd (GetTargetVirtualAddress e (fr In_target_resolver) s original)) = target_size s"
    "original_vtable (snd (GetTargetVirtualAddress e (fr In_target_resolver) s original)) = original_vtable s"
    "memory (snd (GetTargetVirtualAddress e (fr In_target_resolver) s original)) = memory s"
    by (rule GetTarget_fields)+
  have fn: "(let trampoline = (case hooks s func of None \<Rightarrow> 0 | Some hook \<Rightarrow> Hook_GetTrampoline e hook)
        in CallInternal_fn e s instance func =
           (if trampoline \<noteq> 0 then Invokes trampoline instance
            else if func \<noteq> 0 then Invokes func instance
            else Returns_default))"
    using pos
    by (simp add: CallInternal_fn_def from_trampoline_def from_raw_address_def Let_def
        sentinel_ge Member_default_def split: option.splits)
  have mem: "(let raw = GetAddress e (fr At_original) original;
          trampoline = (case hooks s raw of None \<Rightarrow> 0 | Some hook \<Rightarrow> Hook_GetTrampoline e hook);
          (t, s') = GetTargetVirtualAddress e (fr In_target_resolver) s original
      in CallInternal e fr s instance original =
           (if trampoline \<noteq> 0
            then (invoke_member e (memory s) instance \<lparr>address = trampoline, index = 0\<rparr>, s)
            else if index t < target_size s
            then (invoke_member e (memory s) instance
                    (t\<lparr>address := original_vtable s ! unat (index t)\<rparr>), s')
            else if raw \<noteq> 0
            then (invoke_member e (memory s) instance \<lparr>address = raw, index = 0\<rparr>, s')
            else (Returns_default, s')))"
    using pos f
    by (auto simp add: CallInternal_def from_trampoline_def from_raw_address_def Let_def
        Member_default_def Member_rebuilt not_less split: option.splits prod.splits)
  from mem fn show ?thesis by (rule conjI)
qed

text \<open>In the initialized example with slot 1 overwritten and a hook registered for
  \<open>0x403000\<close>: the thunk to slot 1 is called through the snapshot, the hooked function
  through its trampoline, an unhooked function through its address, and a null function
  pointer gives the default.\<close>

lemma ex_Call_after_Initialize:
  "0 < target_size (write_slot (ex_initialized\<lparr>hooks := [0x403000 \<mapsto> 0x700000]\<rparr>) 1 0x501100) \<and>
   memory (write_slot (ex_initialized\<lparr>hooks := [0x403000 \<mapsto> 0x700000]\<rparr>) 1 0x501100) 0x20008
     = 0x501100 \<and>
   fst (CallInternal (ex_env True) ex_frames
          (write_slot (ex_initialized\<lparr>hooks := [0x403000 \<mapsto> 0x700000]\<rparr>) 1 0x501100)
          0x10000 (ref_at 0x402000)) = Invokes 0x401100 0x10000 \<and>
   fst (CallInternal (ex_env True) ex_frames
          (write_slot (ex_initialized\<lparr>hooks := [0x403000 \<mapsto> 0x700000]\<rparr>) 1 0x501100)
          0x10000 (ref_at 0x403000)) = Invokes 0x700000 0x10000 \<and>
   CallInternal_fn (ex_env True)
          (write_slot (ex_initialized\<lparr>hooks := [0x403000 \<mapsto> 0x700000]\<rparr>) 1 0x501100)
          0x10000 0x403000 = Invokes 0x700000 0x10000 \<and>
   CallInternal_fn (ex_env True)
          (write_slot (ex_initialized\<lparr>hooks := [0x403000 \<mapsto> 0x700000]\<rparr>) 1 0x501100)
          0x10000 0x403100 = Invokes 0x403100 0x10000 \<and>
   CallInternal_fn (ex_env True)
          (write_slot (ex_initialized\<lparr>hooks := [0x403000 \<mapsto> 0x700000]\<rparr>) 1 0x501100)
          0x10000 0 = Returns_default"
proof -
  let ?s = "write_slot (ex_initialized\<lparr>hooks := [0x403000 \<mapsto> 0x700000]\<rparr>) 1 0x501100"
  have flds: "target_size ?s = 3" "target_vtable ?s = 0x20000" "target_cache ?s = Map.empty"
    "hooks ?s = [0x403000 \<mapsto> 0x700000]" "original_vtable ?s = [0x401000, 0x401100, 0x401200]"
    "memory ?s 0x20008 = 0x501100"
    by (simp_all add: write_slot_def ex_initialized_def Let_def slot_def sizeof_ptr_64)
  have pos: "0 < target_size ?s"
    by (simp add: flds)
  have b: "build (ex_env True) \<noteq> NON_MSVC"
    by (simp add: ex_env_def)
  have r: "GetTargetVirtualAddress (ex_env True) (ex_frames In_target_resolver) ?s (ref_at 0x402000) =
      (Member_of 1 0x501100, ?s\<lparr>target_cache := [0x402000 \<mapsto> Member_of 1 0x501100]\<rparr>)"
    by (simp add: ex_target_miss flds)
  show ?thesis
    using Call_after_Initialize [OF pos, of "ex_env True" ex_frames "ref_at 0x402000" "0x10000" "0x403000"]
      Call_after_Initialize [OF pos, of "ex_env True" ex_frames "ref_at 0x403000" "0x10000" "0x403100"]
      Call_after_Initialize [OF pos, of "ex_env True" ex_frames "ref_at 0x403000" "0x10000" "0"]
    apply (simp add: flds ex_GetAddress r Let_def Member_of_def word_less_nat_alt
        invoke_member_msvc [OF b] split: prod.splits)
    apply (simp add: ex_env_def)
    done
qed

text \<open>
  C1. The claim is that \<^verbatim>\<open>Call\<close> calls through the trampoline of a registered hook.
  The code marks the trampoline, and after it the raw address, as found by setting the
  index to 0, and then tests \<^verbatim>\<open>index >= target_size\<close>: while \<^verbatim>\<open>target_size\<close> is
  zero the mark is rejected. In the example, the function at \<open>0x403000\<close> is hooked
  before \<^verbatim>\<open>Initialize\<close>; a hook with the trampoline \<open>0x700000\<close> is registered for
  its address, and neither overload of \<^verbatim>\<open>Call\<close> calls through the trampoline: both
  return the default. Besides, compiled without \<^verbatim>\<open>_MSC_VER\<close>, the call of a snapshot
  value goes through a Member whose index is taken for the adjustment of \<^verbatim>\<open>this\<close>:
  after \<^verbatim>\<open>Initialize\<close>, the reference to slot 1 is called through the snapshot value
  \<open>0x401100\<close> on the receiver \<open>0x10001\<close>, not on the instance \<open>0x10000\<close>.
\<close>

theorem Call_misses_registered_trampoline:
  "hooks (snd (HookInternal (ex_env True) ex_frames (initial_state ex_memory)
       (ref_at 0x403000) (ref_at 0x503000))) (GetAddress (ex_env True) (ex_frames At_original) (ref_at 0x403000))
     = Some 0x700000 \<and>
   Hook_GetTrampoline (ex_env True) 0x700000 = 0x700000 \<and>
   fst (CallInternal (ex_env True) ex_frames
         (snd (HookInternal (ex_env True) ex_frames (initial_state ex_memory)
            (ref_at 0x403000) (ref_at 0x503000)))
         0x10000 (ref_at 0x403000)) = Returns_default \<and>
   CallInternal_fn (ex_env True)
         (snd (HookInternal (ex_env True) ex_frames (initial_state ex_memory)
            (ref_at 0x403000) (ref_at 0x503000)))
         0x10000 0x403000 = Returns_default \<and>
   fst (CallInternal ex_env_other ex_frames ex_initialized 0x10000 (ref_at 9))
     = Invokes 0x401100 0x10001"
proof -
  let ?s = "(initial_state ex_memory)\<lparr>hooks := [0x403000 \<mapsto> 0x700000]\<rparr> :: (64, 64 word) state"
  have r: "GetTargetVirtualAddress (ex_env True) (ex_frames In_target_resolver) ?s (ref_at 0x403000) = (Member_default, ?s)"
    by (rule GetTarget_uninitialized) (simp_all add: initial_state_def)
  have c: "fst (CallInternal (ex_env True) ex_frames ?s 0x10000 (ref_at 0x403000)) = Returns_default"
    by (simp add: CallInternal_def from_trampoline_def from_raw_address_def Let_def r ex_GetAddress
        Member_default_def)
      (simp add: initial_state_def ex_env_def)
  have d: "CallInternal_fn (ex_env True) ?s 0x10000 0x403000 = Returns_default"
    by (simp add: CallInternal_fn_def from_trampoline_def from_raw_address_def Let_def
        Member_default_def)
      (simp add: initial_state_def ex_env_def)
  have t: "GetTargetVirtualAddress ex_env_other (ex_frames In_target_resolver) ex_initialized (ref_at 9)
      = (Member_of 1 0x401100,
         ex_initialized\<lparr>target_cache := [0x7FFD00 \<mapsto> Member_of 1 0x401100]\<rparr>)"
    by (simp add: GetTargetVirtualAddress_def GetVirtualAddressInternal_def ex_GetAddress_other
        ex_resolve_other ex_initialized_def ex_memory_cells ex_frames_def Member_of_def Let_def
        word_less_nat_alt)
  have pos: "0 < target_size ex_initialized"
    by (simp add: ex_initialized_def)
  have v: "hooks ex_initialized = Map.empty" "target_size ex_initialized = 3"
    "original_vtable ex_initialized = [0x401000, 0x401100, 0x401200]"
    by (simp_all add: ex_initialized_def)
  have b: "build ex_env_other = NON_MSVC"
    by (simp add: ex_env_other_def)
  have o: "fst (CallInternal ex_env_other ex_frames ex_initialized 0x10000 (ref_at 9))
      = Invokes 0x401100 0x10001"
    using Call_after_Initialize [OF pos, of ex_env_other ex_frames "ref_at 9" "0x10000" 0]
    by (simp add: t v ex_GetAddress_other Member_of_def word_less_nat_alt
        invoke_member_other [OF b])
  show ?thesis
    by (simp add: ex_Hook_before_Initialize ex_GetAddress c d o) (simp add: ex_env_def)
qed

section \<open>Hook\<close>

text \<open>Whatever \<^verbatim>\<open>Create\<close> and \<^verbatim>\<open>Enable\<close> answer, the entry that
  \<^verbatim>\<open>hooks[address]\<close> inserted stays in the map.\<close>

lemma install_hook_leaves_entry:
  "hooks (snd (install_hook e s addr subst)) addr \<noteq> None"
  by (simp add: install_hook_def Let_def split: prod.splits)

text \<open>
  C2. The claim is that a failed \<^verbatim>\<open>Create\<close> or \<^verbatim>\<open>Enable\<close> leaves no entry for the
  address in the hook map. The code does otherwise: in the initialized example, with a
  collaborator whose \<^verbatim>\<open>Create\<close> fails, \<^verbatim>\<open>Hook\<close> on the function at \<open>0x403000\<close>,
  which is in no table and had no entry, returns false and leaves the default-constructed
  handle in the map under \<open>0x403000\<close>; \<^verbatim>\<open>IsHooked\<close> then answers true. The overload
  for plain functions does the same.
\<close>

theorem Hook_failed_Create_keeps_entry:
  "fst (HookInternal (ex_env False) ex_frames ex_initialized (ref_at 0x403000) (ref_at 0x503000)) = False \<and>
   hooks ex_initialized (GetAddress (ex_env False) (ex_frames At_original) (ref_at 0x403000)) = None \<and>
   hooks (snd (HookInternal (ex_env False) ex_frames ex_initialized (ref_at 0x403000) (ref_at 0x503000)))
     (GetAddress (ex_env False) (ex_frames At_original) (ref_at 0x403000)) = Some 0 \<and>
   fst (IsHookedInternal (ex_env False) ex_frames
     (snd (HookInternal (ex_env False) ex_frames ex_initialized (ref_at 0x403000) (ref_at 0x503000)))
     (ref_at 0x403000)) = True \<and>
   fst (HookInternal_fn (ex_env False) ex_frames ex_initialized 0x403000 (ref_at 0x503000)) = False \<and>
   hooks (snd (HookInternal_fn (ex_env False) ex_frames ex_initialized 0x403000 (ref_at 0x503000))) 0x403000
     = Some 0"
proof -
  have fn: "HookInternal_fn (ex_env False) ex_frames ex_initialized 0x403000 (ref_at 0x503000) =
      (False, ex_initialized\<lparr>hooks := [0x403000 \<mapsto> 0]\<rparr>)"
    by (simp add: HookInternal_fn_def ex_GetAddress install_hook_def)
      (simp add: ex_initialized_def ex_env_def)
  show ?thesis
    by (simp add: ex_Hook_Create_fails fn ex_GetAddress IsHookedInternal_def)
      (simp add: ex_initialized_def)
qed

text \<open>
  C3, amended. When the reference resolves to a slot of the target table whose current
  value differs from the snapshot, or resolves to no slot while a hook is registered for
  its address, \<^verbatim>\<open>Hook\<close> returns false, writes no memory and calls \<^verbatim>\<open>ProtectMemory\<close>
  not at all; the state is left as it was but for the target cache, which can gain the
  entry of this reference and no other, and which is unchanged when the reference was
  cached already or resolves to no slot. The overload for plain functions returns false
  and changes nothing when a hook is registered for the function.
\<close>

theorem Hook_already_hooked:
  assumes "let t = fst (GetTargetVirtualAddress e (fr In_target_resolver) s original)
           in (index t < target_size s \<and>
               memory s (slot (target_vtable s) (index t)) \<noteq> original_vtable s ! unat (index t))
              \<or> (\<not> index t < target_size s \<and> hooks s (GetAddress e (fr At_original) original) \<noteq> None)"
  shows "(let (ok, s') = HookInternal e fr s original substitute
          in \<not> ok \<and> memory s' = memory s \<and> protect_log s' = protect_log s \<and>
             s' = s\<lparr>target_cache := target_cache s'\<rparr> \<and>
             (\<forall>k. k \<noteq> GetAddress e (fr In_target_resolver) original \<longrightarrow> target_cache s' k = target_cache s k) \<and>
             (target_cache s (GetAddress e (fr In_target_resolver) original) \<noteq> None
                \<or> \<not> index (fst (GetTargetVirtualAddress e (fr In_target_resolver) s original)) < target_size s
              \<longrightarrow> s' = s))
         \<and> (hooks s func \<noteq> None \<longrightarrow> HookInternal_fn e fr s func substitute = (False, s))"
proof -
  obtain t s1 where r: "GetTargetVirtualAddress e (fr In_target_resolver) s original = (t, s1)"
    by (cases "GetTargetVirtualAddress e (fr In_target_resolver) s original")
  have f: "target_size s1 = target_size s" "target_vtable s1 = target_vtable s"
    "original_vtable s1 = original_vtable s" "memory s1 = memory s" "hooks s1 = hooks s"
    "protect_log s1 = protect_log s"
    using GetTarget_fields [of e "fr In_target_resolver" s original] by (simp_all add: r)
  have h: "HookInternal e fr s original substitute = (False, s1)"
    using assms by (auto simp add: HookInternal_def r f Let_def)
  have c: "s1 = s\<lparr>target_cache := target_cache s1\<rparr>"
    using r by (auto simp add: GetTargetVirtualAddress_def split: prod.splits)
  have k: "\<forall>k. k \<noteq> GetAddress e (fr In_target_resolver) original \<longrightarrow> target_cache s1 k = target_cache s k"
    using r by (auto simp add: GetTargetVirtualAddress_def GetVirtualAddressInternal_def Let_def
        split: prod.splits option.splits if_splits)
  have u: "target_cache s (GetAddress e (fr In_target_resolver) original) \<noteq> None \<or> \<not> index t < target_size s \<longrightarrow> s1 = s"
    using r by (auto simp add: GetTargetVirtualAddress_def GetVirtualAddressInternal_def Let_def
        split: prod.splits option.splits if_splits)
  have fn: "hooks s func \<noteq> None \<longrightarrow> HookInternal_fn e fr s func substitute = (False, s)"
    by (simp add: HookInternal_fn_def)
  show ?thesis
    using c k u fn by (simp add: h r f)
qed

text \<open>
  C3 as stated fails in two ways. A hook registered for the address does not stop
  \<^verbatim>\<open>Hook\<close> when the reference resolves to a slot still holding its snapshot value: in the
  example the thunk at \<open>0x402000\<close> is hooked before \<^verbatim>\<open>Initialize\<close>, which registers
  a hook for its address, and hooked again after it, which succeeds and writes slot 1.
  And a refused \<^verbatim>\<open>Hook\<close> can change the state: after \<^verbatim>\<open>Initialize\<close> and a
  \<^verbatim>\<open>Hook\<close> of slot 1 through the thunk at \<open>0x402000\<close>, a \<^verbatim>\<open>Hook\<close> of the same
  slot through the thunk at \<open>0x402100\<close> returns false and adds that thunk to the target
  cache.
\<close>

theorem Hook_already_hooked_counterexample:
  "run (ex_env True) (initial_state ex_memory)
      [Op_Hook ex_frames (ref_at 0x402000) (ref_at 0x502000), Op_Initialize 0x10000 0x11000]
     = Some (ex_initialized\<lparr>hooks := [0x402000 \<mapsto> 0x700000]\<rparr>) \<and>
   hooks (ex_initialized\<lparr>hooks := [0x402000 \<mapsto> 0x700000]\<rparr>)
      (GetAddress (ex_env True) (ex_frames At_original) (ref_at 0x402000)) = Some 0x700000 \<and>
   fst (HookInternal (ex_env True) ex_frames (ex_initialized\<lparr>hooks := [0x402000 \<mapsto> 0x700000]\<rparr>)
      (ref_at 0x402000) (ref_at 0x502000)) = True \<and>
   memory (ex_initialized\<lparr>hooks := [0x402000 \<mapsto> 0x700000]\<rparr>) 0x20008 = 0x401100 \<and>
   memory (snd (HookInternal (ex_env True) ex_frames (ex_initialized\<lparr>hooks := [0x402000 \<mapsto> 0x700000]\<rparr>)
      (ref_at 0x402000) (ref_at 0x502000))) 0x20008 = 0x501100 \<and>
   run (ex_env True) (initial_state ex_memory)
      [Op_Initialize 0x10000 0x11000, Op_Hook ex_frames (ref_at 0x402000) (ref_at 0x502000)]
     = Some ex_hooked \<and>
   index (fst (GetTargetVirtualAddress (ex_env True) (ex_frames In_target_resolver) ex_hooked (ref_at 0x402100))) = 1 \<and>
   target_size ex_hooked = 3 \<and>
   memory ex_hooked (slot (target_vtable ex_hooked) 1) = 0x501100 \<and>
   original_vtable ex_hooked ! unat (1 :: 64 word) = 0x401100 \<and>
   fst (HookInternal (ex_env True) ex_frames ex_hooked (ref_at 0x402100) (ref_at 0x502000)) = False \<and>
   target_cache ex_hooked 0x402100 = None \<and>
   target_cache (snd (HookInternal (ex_env True) ex_frames ex_hooked (ref_at 0x402100) (ref_at 0x502000)))
      0x402100 = Some (Member_of 1 0x501100)"
proof -
  let ?b = "ex_initialized\<lparr>hooks := [0x402000 \<mapsto> 0x700000]\<rparr>"
  have i0: "Initialize (ex_env True) (initial_state ex_memory) 0x10000 0x11000
      = Some (True, ex_initialized)"
    using ex_Initialize [of "initial_state ex_memory" Map.empty]
    by (simp add: initial_state_def ex_initialized_def)
  have i1: "Initialize (ex_env True) ((initial_state ex_memory)\<lparr>hooks := [0x402000 \<mapsto> 0x700000]\<rparr>)
      0x10000 0x11000 = Some (True, ?b)"
    by (rule ex_Initialize [of "?b"]) simp
  have r1: "run (ex_env True) (initial_state ex_memory)
      [Op_Hook ex_frames (ref_at 0x402000) (ref_at 0x502000), Op_Initialize 0x10000 0x11000] = Some ?b"
    by (simp add: ex_Hook_thunk_before_Initialize i1)
  have r2: "run (ex_env True) (initial_state ex_memory)
      [Op_Initialize 0x10000 0x11000, Op_Hook ex_frames (ref_at 0x402000) (ref_at 0x502000)] = Some ex_hooked"
    by (simp add: i0 ex_Hook_slot)
  have t: "GetTargetVirtualAddress (ex_env True) (ex_frames In_target_resolver) ?b (ref_at 0x402000) =
      (Member_of 1 0x401100, ?b\<lparr>target_cache := [0x402000 \<mapsto> Member_of 1 0x401100]\<rparr>)"
    by (simp add: ex_target_miss ex_initialized_def ex_memory_cells)
  have u: "GetSubstituteVirtualAddress (ex_env True) (ex_frames In_substitute_resolver)
       (?b\<lparr>target_cache := [0x402000 \<mapsto> Member_of 1 0x401100]\<rparr>) (ref_at 0x502000) =
      (Member_of 1 0x501100,
       ?b\<lparr>target_cache := [0x402000 \<mapsto> Member_of 1 0x401100],
         substitute_cache := [0x502000 \<mapsto> Member_of 1 0x501100]\<rparr>)"
    by (simp add: ex_substitute_miss ex_initialized_def ex_memory_cells)
  have h1: "HookInternal (ex_env True) ex_frames ?b (ref_at 0x402000) (ref_at 0x502000) =
      (True, write_slot (?b\<lparr>target_cache := [0x402000 \<mapsto> Member_of 1 0x401100],
         substitute_cache := [0x502000 \<mapsto> Member_of 1 0x501100]\<rparr>) 1 0x501100)"
    by (simp add: HookInternal_def t u Let_def)
      (simp add: ex_initialized_def Member_of_def ex_memory_cells slot_def sizeof_ptr_64
        word_less_nat_alt word_le_nat_alt)
  have t2: "GetTargetVirtualAddress (ex_env True) (ex_frames In_target_resolver) ex_hooked (ref_at 0x402100) =
      (Member_of 1 0x501100,
       ex_hooked\<lparr>target_cache := (target_cache ex_hooked)(0x402100 \<mapsto> Member_of 1 0x501100)\<rparr>)"
    by (simp add: ex_target_miss2 ex_hooked_def ex_initialized_def)
  have h2: "HookInternal (ex_env True) ex_frames ex_hooked (ref_at 0x402100) (ref_at 0x502000) =
      (False, ex_hooked\<lparr>target_cache := (target_cache ex_hooked)(0x402100 \<mapsto> Member_of 1 0x501100)\<rparr>)"
    by (simp add: HookInternal_def t2 Let_def)
      (simp add: ex_initialized_def ex_hooked_def Member_of_def slot_def sizeof_ptr_64
        word_less_nat_alt word_le_nat_alt)
  show ?thesis
    by (simp add: r1 r2 h1 h2 t2 ex_GetAddress del: run.simps)
      (simp add: ex_initialized_def ex_hooked_def write_slot_def Member_of_def slot_def
        sizeof_ptr_64 ex_memory_cells Let_def)
qed

text \<open>In the example: hooking slot 1 a second time through the same thunk, and hooking
  the function at \<open>0x403000\<close> while a hook is registered for it, are refused and change
  nothing.\<close>

theorem Hook_already_hooked_witness:
  "memory ex_hooked (slot (target_vtable ex_hooked) 1) = 0x501100 \<and>
   original_vtable ex_hooked ! unat (1 :: 64 word) = 0x401100 \<and>
   HookInternal (ex_env True) ex_frames ex_hooked (ref_at 0x402000) (ref_at 0x502000) = (False, ex_hooked) \<and>
   hooks (ex_initialized\<lparr>hooks := [0x403000 \<mapsto> 0x700000]\<rparr>)
     (GetAddress (ex_env True) (ex_frames At_original) (ref_at 0x403000)) = Some 0x700000 \<and>
   HookInternal (ex_env True) ex_frames (ex_initialized\<lparr>hooks := [0x403000 \<mapsto> 0x700000]\<rparr>)
     (ref_at 0x403000) (ref_at 0x503000)
     = (False, ex_initialized\<lparr>hooks := [0x403000 \<mapsto> 0x700000]\<rparr>) \<and>
   HookInternal_fn (ex_env True) ex_frames (ex_initialized\<lparr>hooks := [0x403000 \<mapsto> 0x700000]\<rparr>)
     0x403000 (ref_at 0x503000)
     = (False, ex_initialized\<lparr>hooks := [0x403000 \<mapsto> 0x700000]\<rparr>)"
proof -
  let ?x = "ex_initialized\<lparr>hooks := [0x403000 \<mapsto> 0x700000]\<rparr>"
  have t1: "GetTargetVirtualAddress (ex_env True) (ex_frames In_target_resolver) ex_hooked (ref_at 0x402000)
      = (Member_of 1 0x401100, ex_hooked)"
    by (rule GetTarget_hit) (simp add: ex_GetAddress ex_hooked_def)
  have t2: "GetTargetVirtualAddress (ex_env True) (ex_frames In_target_resolver) ?x (ref_at 0x403000) = (Member_default, ?x)"
    by (rule ex_target_none) (simp_all add: ex_initialized_def)
  have v: "memory ex_hooked (slot (target_vtable ex_hooked) 1) = 0x501100"
    "original_vtable ex_hooked = [0x401000, 0x401100, 0x401200]"
    "target_size ex_hooked = 3" "target_cache ex_hooked 0x402000 = Some (Member_of 1 0x401100)"
    by (simp_all add: ex_hooked_def ex_initialized_def slot_def sizeof_ptr_64)
  have p1: "let t = fst (GetTargetVirtualAddress (ex_env True) (ex_frames In_target_resolver) ex_hooked (ref_at 0x402000))
           in (index t < target_size ex_hooked \<and>
               memory ex_hooked (slot (target_vtable ex_hooked) (index t))
                 \<noteq> original_vtable ex_hooked ! unat (index t))
              \<or> (\<not> index t < target_size ex_hooked \<and>
                  hooks ex_hooked (GetAddress (ex_env True) (ex_frames At_original) (ref_at 0x402000)) \<noteq> None)"
    by (simp add: t1 v Member_of_def word_less_nat_alt)
  have p2: "let t = fst (GetTargetVirtualAddress (ex_env True) (ex_frames In_target_resolver) ?x (ref_at 0x403000))
           in (index t < target_size ?x \<and>
               memory ?x (slot (target_vtable ?x) (index t))
                 \<noteq> original_vtable ?x ! unat (index t))
              \<or> (\<not> index t < target_size ?x \<and>
                  hooks ?x (GetAddress (ex_env True) (ex_frames At_original) (ref_at 0x403000)) \<noteq> None)"
    by (simp add: t2 sentinel_not_less ex_GetAddress)
  have c1: "HookInternal (ex_env True) ex_frames ex_hooked (ref_at 0x402000) (ref_at 0x502000)
      = (False, ex_hooked)"
    using Hook_already_hooked [OF p1, of "ref_at 0x502000" 0]
    by (simp add: ex_GetAddress v split: prod.splits)
  have c2: "HookInternal (ex_env True) ex_frames ?x (ref_at 0x403000) (ref_at 0x503000) = (False, ?x) \<and>
      HookInternal_fn (ex_env True) ex_frames ?x 0x403000 (ref_at 0x503000) = (False, ?x)"
    using Hook_already_hooked [OF p2, of "ref_at 0x503000" "0x403000"]
    by (simp add: t2 sentinel_not_less split: prod.splits)
  show ?thesis
    using c1 c2 by (simp add: v ex_GetAddress)
qed

section \<open>UnHook\<close>

text \<open>
  C4, amended. \<^verbatim>\<open>UnHook( original )\<close>: if a hook is registered for the address
  \<^verbatim>\<open>GetAddress( original )\<close>, it is erased from the hook map and the result is true; else
  if the reference resolves to no slot of the target table, the result is false and the
  state is unchanged; else if the slot holds its snapshot value, the result is false and
  the state is unchanged but for the target cache, which can gain the entry of this
  reference (and is unchanged when the reference was cached already); otherwise the
  snapshot value is stored into that one slot between two \<^verbatim>\<open>ProtectMemory\<close> calls, the
  result is true, and the slot then holds its snapshot value. The overload for plain
  functions erases a registered hook and returns true, or returns false and changes
  nothing.
\<close>

theorem UnHook_cases:
  "(let raw = GetAddress e (fr At_original) original;
        key = GetAddress e (fr In_target_resolver) original;
        (t, s1) = GetTargetVirtualAddress e (fr In_target_resolver) s original;
        cell = slot (target_vtable s) (index t);
        vfunction = original_vtable s ! unat (index t)
    in UnHookInternal e fr s original =
         (if hooks s raw \<noteq> None then (True, s\<lparr>hooks := (hooks s)(raw := None)\<rparr>)
          else if \<not> index t < target_size s then (False, s)
          else if memory s cell = vfunction then (False, s1)
          else (True, s1\<lparr>memory := (memory s)(cell := vfunction),
                        protect_log := protect_log s
                          @ [(cell, sizeof_ptr, False), (cell, sizeof_ptr, True)]\<rparr>))
       \<and> s1 = s\<lparr>target_cache := target_cache s1\<rparr>
       \<and> (\<forall>k. k \<noteq> key \<longrightarrow> target_cache s1 k = target_cache s k)
       \<and> (target_cache s key \<noteq> None \<longrightarrow> s1 = s)
       \<and> (hooks s raw = None \<and> index t < target_size s \<and> memory s cell \<noteq> vfunction
            \<longrightarrow> memory (snd (UnHookInternal e fr s original)) cell
                 = original_vtable (snd (UnHookInternal e fr s original)) ! unat (index t)))
   \<and> UnHookInternal_fn s func =
        (if hooks s func \<noteq> None then (True, s\<lparr>hooks := (hooks s)(func := None)\<rparr>)
         else (False, s))"
proof -
  obtain t s1 where r: "GetTargetVirtualAddress e (fr In_target_resolver) s original = (t, s1)"
    by (cases "GetTargetVirtualAddress e (fr In_target_resolver) s original")
  have f: "target_size s1 = target_size s" "target_vtable s1 = target_vtable s"
    "original_vtable s1 = original_vtable s" "memory s1 = memory s" "hooks s1 = hooks s"
    "protect_log s1 = protect_log s"
    using GetTarget_fields [of e "fr In_target_resolver" s original] by (simp_all add: r)
  have c: "s1 = s\<lparr>target_cache := target_cache s1\<rparr>"
    using r by (auto simp add: GetTargetVirtualAddress_def split: prod.splits)
  have k: "\<forall>k. k \<noteq> GetAddress e (fr In_target_resolver) original \<longrightarrow> target_cache s1 k = target_cache s k"
    using r by (auto simp add: GetTargetVirtualAddress_def GetVirtualAddressInternal_def Let_def
        split: prod.splits option.splits if_splits)
  have u: "target_cache s (GetAddress e (fr In_target_resolver) original) \<noteq> None \<or> \<not> index t < target_size s \<longrightarrow> s1 = s"
    using r by (auto simp add: GetTargetVirtualAddress_def GetVirtualAddressInternal_def Let_def
        split: prod.splits option.splits if_splits)
  have un: "UnHookInternal e fr s original =
         (if hooks s (GetAddress e (fr At_original) original) \<noteq> None
          then (True, s\<lparr>hooks := (hooks s)(GetAddress e (fr At_original) original := None)\<rparr>)
          else if \<not> index t < target_size s then (False, s)
          else if memory s (slot (target_vtable s) (index t)) = original_vtable s ! unat (index t)
          then (False, s1)
          else (True, s1\<lparr>memory := (memory s)(slot (target_vtable s) (index t)
                             := original_vtable s ! unat (index t)),
                        protect_log := protect_log s
                          @ [(slot (target_vtable s) (index t), sizeof_ptr, False),
                             (slot (target_vtable s) (index t), sizeof_ptr, True)]\<rparr>))"
    using u by (auto simp add: UnHookInternal_def r f Let_def write_slot_def not_less)
  have fn: "UnHookInternal_fn s func =
        (if hooks s func \<noteq> None then (True, s\<lparr>hooks := (hooks s)(func := None)\<rparr>)
         else (False, s))"
    by (simp add: UnHookInternal_fn_def)
  show ?thesis
    using c k u fn by (simp add: un r f Let_def)
qed

text \<open>
  C4 as stated fails where it says that all state is unchanged when the slot holds its
  snapshot value: right after \<^verbatim>\<open>Initialize\<close> in the example, \<^verbatim>\<open>UnHook\<close> of the
  never-hooked slot 1 through the thunk at \<open>0x402000\<close> returns false and leaves the
  thunk's resolution in the target cache.
\<close>

theorem UnHook_cases_counterexample:
  "Initialize (ex_env True) (initial_state ex_memory) 0x10000 0x11000
     = Some (True, ex_initialized) \<and>
   hooks ex_initialized (GetAddress (ex_env True) (ex_frames At_original) (ref_at 0x402000)) = None \<and>
   index (fst (GetTargetVirtualAddress (ex_env True) (ex_frames In_target_resolver) ex_initialized (ref_at 0x402000))) = 1 \<and>
   target_size ex_initialized = 3 \<and>
   memory ex_initialized (slot (target_vtable ex_initialized) 1) = 0x401100 \<and>
   original_vtable ex_initialized ! unat (1 :: 64 word) = 0x401100 \<and>
   fst (UnHookInternal (ex_env True) ex_frames ex_initialized (ref_at 0x402000)) = False \<and>
   target_cache ex_initialized 0x402000 = None \<and>
   target_cache (snd (UnHookInternal (ex_env True) ex_frames ex_initialized (ref_at 0x402000))) 0x402000
     = Some (Member_of 1 0x401100) \<and>
   snd (UnHookInternal (ex_env True) ex_frames ex_initialized (ref_at 0x402000)) \<noteq> ex_initialized"
proof -
  have i0: "Initialize (ex_env True) (initial_state ex_memory) 0x10000 0x11000
      = Some (True, ex_initialized)"
    using ex_Initialize [of "initial_state ex_memory" Map.empty]
    by (simp add: initial_state_def ex_initialized_def)
  have t: "GetTargetVirtualAddress (ex_env True) (ex_frames In_target_resolver) ex_initialized (ref_at 0x402000) =
      (Member_of 1 0x401100,
       ex_initialized\<lparr>target_cache := [0x402000 \<mapsto> Member_of 1 0x401100]\<rparr>)"
    by (simp add: ex_target_miss ex_initialized_def ex_memory_cells)
  have v: "memory ex_initialized (slot (target_vtable ex_initialized) 1) = 0x401100"
    "original_vtable ex_initialized = [0x401000, 0x401100, 0x401200]"
    "target_size ex_initialized = 3" "target_cache ex_initialized = Map.empty"
    "hooks ex_initialized = Map.empty"
    by (simp_all add: ex_initialized_def slot_def sizeof_ptr_64 ex_memory_cells)
  have un: "UnHookInternal (ex_env True) ex_frames ex_initialized (ref_at 0x402000) =
      (False, ex_initialized\<lparr>target_cache := [0x402000 \<mapsto> Member_of 1 0x401100]\<rparr>)"
    by (simp add: UnHookInternal_def t v ex_GetAddress Let_def Member_of_def word_le_nat_alt)
  have ne: "ex_initialized\<lparr>target_cache := [0x402000 \<mapsto> Member_of 1 0x401100]\<rparr> \<noteq> ex_initialized"
  proof
    assume "ex_initialized\<lparr>target_cache := [0x402000 \<mapsto> Member_of 1 0x401100]\<rparr> = ex_initialized"
    then have "target_cache (ex_initialized\<lparr>target_cache := [0x402000 \<mapsto> Member_of 1 0x401100]\<rparr>)
        0x402000 = target_cache ex_initialized 0x402000"
      by simp
    then show False
      by (simp add: v)
  qed
  show ?thesis
    using ne by (simp add: i0 un t v ex_GetAddress Member_of_def)
qed

text \<open>In the example: unhooking the hooked slot 1 restores \<open>0x401100\<close>; unhooking the
  function at \<open>0x403000\<close> erases its hook; unhooking it when nothing is registered is
  refused and changes nothing.\<close>

theorem UnHook_cases_witness:
  "UnHookInternal (ex_env True) ex_frames ex_hooked (ref_at 0x402000) =
     (True, ex_hooked\<lparr>memory := (memory ex_hooked)(0x20008 := 0x401100),
              protect_log := protect_log ex_hooked @ [(0x20008, 8, False), (0x20008, 8, True)]\<rparr>) \<and>
   memory ex_hooked 0x20008 = 0x501100 \<and>
   memory (snd (UnHookInternal (ex_env True) ex_frames ex_hooked (ref_at 0x402000))) 0x20008 = 0x401100 \<and>
   UnHookInternal (ex_env True) ex_frames (ex_initialized\<lparr>hooks := [0x403000 \<mapsto> 0x700000]\<rparr>)
       (ref_at 0x403000) = (True, ex_initialized\<lparr>hooks := Map.empty\<rparr>) \<and>
   UnHookInternal (ex_env True) ex_frames ex_initialized (ref_at 0x403000) = (False, ex_initialized) \<and>
   UnHookInternal_fn (ex_initialized\<lparr>hooks := [0x403000 \<mapsto> 0x700000]\<rparr>) 0x403000
     = (True, ex_initialized\<lparr>hooks := Map.empty\<rparr>)"
proof -
  let ?x = "ex_initialized\<lparr>hooks := [0x403000 \<mapsto> 0x700000]\<rparr>"
  have t1: "GetTargetVirtualAddress (ex_env True) (ex_frames In_target_resolver) ex_hooked (ref_at 0x402000)
      = (Member_of 1 0x401100, ex_hooked)"
    by (rule GetTarget_hit) (simp add: ex_GetAddress ex_hooked_def)
  have t2: "GetTargetVirtualAddress (ex_env True) (ex_frames In_target_resolver) ex_initialized (ref_at 0x403000)
      = (Member_default, ex_initialized)"
    by (rule ex_target_none) (simp_all add: ex_initialized_def)
  have v: "target_vtable ex_hooked = 0x20000" "memory ex_hooked 0x20008 = 0x501100"
    "original_vtable ex_hooked = [0x401000, 0x401100, 0x401200]"
    "target_size ex_hooked = 3" "hooks ex_hooked = Map.empty" "hooks ex_initialized = Map.empty"
    by (simp_all add: ex_hooked_def ex_initialized_def)
  have a: "UnHookInternal (ex_env True) ex_frames ex_hooked (ref_at 0x402000) =
     (True, ex_hooked\<lparr>memory := (memory ex_hooked)(0x20008 := 0x401100),
              protect_log := protect_log ex_hooked @ [(0x20008, 8, False), (0x20008, 8, True)]\<rparr>)"
    using UnHook_cases [of "ex_env True" ex_frames "ref_at 0x402000" ex_hooked 0]
    by (simp add: t1 v ex_GetAddress Let_def Member_of_def slot_def sizeof_ptr_64 word_less_nat_alt)
  have b: "UnHookInternal (ex_env True) ex_frames ?x (ref_at 0x403000) = (True, ex_initialized\<lparr>hooks := Map.empty\<rparr>) \<and>
      UnHookInternal_fn ?x 0x403000 = (True, ex_initialized\<lparr>hooks := Map.empty\<rparr>)"
    using UnHook_cases [of "ex_env True" ex_frames "ref_at 0x403000" ?x "0x403000"]
    by (simp add: ex_GetAddress Let_def split: prod.splits)
  have c: "UnHookInternal (ex_env True) ex_frames ex_initialized (ref_at 0x403000) = (False, ex_initialized)"
    using UnHook_cases [of "ex_env True" ex_frames "ref_at 0x403000" ex_initialized 0]
    by (simp add: t2 v ex_GetAddress Let_def sentinel_not_less)
  show ?thesis
    using b c by (simp add: a v)
qed

section \<open>Initialize\<close>

text \<open>The walk over the substitute's table ends when some slot from the starting
  index on is null.\<close>

lemma count_substitute_returns:
  "mem (slot vtable (n + of_nat k)) = 0 \<Longrightarrow> \<exists>r. count_substitute mem vtable n = Some r"
proof (induction k arbitrary: n)
  case 0
  then show ?case
    by (simp add: count_substitute.simps [of mem vtable n])
next
  case (Suc k)
  show ?case
  proof (cases "mem (slot vtable n) = 0")
    case True
    then show ?thesis
      by (simp add: count_substitute.simps [of mem vtable n])
  next
    case False
    from Suc.prems have "mem (slot vtable (n + 1 + of_nat k)) = 0"
      by (simp add: ac_simps)
    then obtain r where "count_substitute mem vtable (n + 1) = Some r"
      using Suc.IH by blast
    with False show ?thesis
      by (simp add: count_substitute.simps [of mem vtable n])
  qed
qed

lemma Initialize_refused:
  "target_vtable s \<noteq> 0 \<Longrightarrow> Initialize e s instance substitute = Some (False, s)"
  by (simp add: Initialize_def)

lemma Initialize_invalid:
  "target_vtable s = 0 \<Longrightarrow>
   GetVirtualTable (memory s) instance = 0
     \<or> \<not> IsExecutableAddress e (memory s (GetVirtualTable (memory s) instance)) \<Longrightarrow>
   Initialize e s instance substitute = Some (False, s\<lparr>target_vtable := 0\<rparr>)"
  by (auto simp add: Initialize_def Let_def)

lemma Initialize_valid:
  assumes "target_vtable s = 0"
    and "GetVirtualTable (memory s) instance \<noteq> 0"
    and "IsExecutableAddress e (memory s (GetVirtualTable (memory s) instance))"
    and "memory s (slot (GetVirtualTable (memory s) substitute) (substitute_size s + of_nat k)) = 0"
  shows "\<exists>s'. Initialize e s instance substitute = Some (True, s')"
proof -
  obtain r where "count_substitute (memory s) (GetVirtualTable (memory s) substitute)
      (substitute_size s) = Some r"
    using count_substitute_returns [of "memory s" _ "substitute_size s" k] assms(4) by blast
  with assms(1-3) show ?thesis
    by (simp add: Initialize_def Let_def)
qed

lemma Initialize_result:
  "target_vtable s = 0 \<Longrightarrow> Initialize e s instance substitute = Some (b, s') \<Longrightarrow>
   b = (GetVirtualTable (memory s) instance \<noteq> 0
        \<and> IsExecutableAddress e (memory s (GetVirtualTable (memory s) instance)))"
  by (auto simp add: Initialize_def Let_def split: if_splits option.splits)

lemma Initialize_success_sets_table:
  "Initialize e s instance substitute = Some (True, s') \<Longrightarrow> target_vtable s' \<noteq> 0"
  by (auto simp add: Initialize_def Let_def split: if_splits option.splits)

text \<open>
  What a successful \<^verbatim>\<open>Initialize\<close> captures, starting from an empty vector whose
  capacity fits \<^verbatim>\<open>size_t\<close>: \<^verbatim>\<open>target_size\<close> is the length of the snapshot, the
  snapshot holds the slots of the target table as the memory had them, and the memory is
  not written. So every \<^verbatim>\<open>original_vtable[index]\<close> of the operations, which the code
  guards by \<^verbatim>\<open>index < target_size\<close>, reads inside the vector. The substitute's slot at
  \<^verbatim>\<open>substitute_size\<close> is null.
\<close>

lemma copy_vtable_length:
  "length vec \<le> cap \<Longrightarrow> length (copy_vtable cap mem vtable vec) \<le> cap"
proof (induction cap mem vtable vec rule: copy_vtable.induct)
  case (1 cap mem vtable vec)
  show ?case
  proof (cases "length vec < cap \<and> mem vtable \<noteq> 0")
    case True
    then have "length (vec @ [mem vtable]) \<le> cap"
      by simp
    from "1.IH" [OF True this] True show ?thesis
      by (simp add: copy_vtable.simps [of cap mem vtable vec])
  next
    case False
    then have "copy_vtable cap mem vtable vec = vec"
      by (subst copy_vtable.simps) auto
    with "1.prems" show ?thesis
      by simp
  qed
qed

lemma copy_vtable_nth:
  "i < length (copy_vtable cap mem vtable vec) \<Longrightarrow>
   copy_vtable cap mem vtable vec ! i =
     (if i < length vec then vec ! i else mem (slot vtable (of_nat (i - length vec))))"
proof (induction cap mem vtable vec rule: copy_vtable.induct)
  case (1 cap mem vtable vec)
  show ?case
  proof (cases "length vec < cap \<and> mem vtable \<noteq> 0")
    case True
    then have eq: "copy_vtable cap mem vtable vec
        = copy_vtable cap mem (vtable + sizeof_ptr) (vec @ [mem vtable])"
      by (simp add: copy_vtable.simps [of cap mem vtable vec])
    from "1.prems" eq have "i < length (copy_vtable cap mem (vtable + sizeof_ptr) (vec @ [mem vtable]))"
      by simp
    from "1.IH" [OF True this] have ih: "copy_vtable cap mem vtable vec ! i =
        (if i < length (vec @ [mem vtable]) then (vec @ [mem vtable]) ! i
         else mem (slot (vtable + sizeof_ptr) (of_nat (i - length (vec @ [mem vtable])))))"
      by (simp add: eq)
    show ?thesis
    proof (cases "i < length vec")
      case True
      with ih show ?thesis by (simp add: nth_append)
    next
      case False
      show ?thesis
      proof (cases "i = length vec")
        case True
        with ih show ?thesis by (simp add: slot_def)
      next
        case neq: False
        with False have gt: "length vec < i" by simp
        then obtain k where k: "i - length vec = Suc k"
          by (cases "i - length vec") simp_all
        then have k': "i - Suc (length vec) = k" by simp
        have "slot (vtable + sizeof_ptr) (of_nat k) = slot vtable (of_nat (Suc k))"
          by (simp add: slot_def algebra_simps)
        with ih gt k k' show ?thesis
          by simp
      qed
    qed
  next
    case False
    then have "copy_vtable cap mem vtable vec = vec"
      by (subst copy_vtable.simps) auto
    with "1.prems" show ?thesis
      by simp
  qed
qed

lemma Initialize_snapshot:
  fixes s :: "('p::len, 'h) state"
  assumes "Initialize e s instance substitute = Some (True, s')"
    and "original_vtable s = []"
    and "vector_max_size e < 2 ^ LENGTH('p)"
  shows "unat (target_size s') = length (original_vtable s')"
    and "\<forall>i < target_size s'.
           original_vtable s' ! unat i = memory s (slot (target_vtable s') i)"
    and "memory s' = memory s"
proof -
  let ?tv = "GetVirtualTable (memory s) instance"
  let ?ov = "copy_vtable (vector_max_size e) (memory s) ?tv []"
  from assms(1,2) have f: "original_vtable s' = ?ov" "target_size s' = of_nat (length ?ov)"
    "target_vtable s' = ?tv" "memory s' = memory s"
    by (auto simp add: Initialize_def Let_def split: if_splits option.splits)
  have "length ?ov \<le> vector_max_size e"
    by (rule copy_vtable_length) simp
  with assms(3) have lt: "length ?ov < 2 ^ LENGTH('p)"
    by simp
  then show len: "unat (target_size s') = length (original_vtable s')"
    by (simp add: f unat_of_nat)
  show "\<forall>i < target_size s'.
      original_vtable s' ! unat i = memory s (slot (target_vtable s') i)"
  proof (intro allI impI)
    fix i :: "'p word"
    assume "i < target_size s'"
    then have "unat i < length ?ov"
      using len by (simp add: word_less_nat_alt f)
    then show "original_vtable s' ! unat i = memory s (slot (target_vtable s') i)"
      by (simp add: f copy_vtable_nth)
  qed
  show "memory s' = memory s"
    by (rule f)
qed

lemma count_substitute_null:
  "count_substitute mem vtable n = Some r \<Longrightarrow> mem (slot vtable r) = 0"
proof (rule count_substitute.raw_induct [where P = "\<lambda>mem vtable n r. mem (slot vtable r) = 0"])
  show "count_substitute mem vtable n = Some r \<Longrightarrow> count_substitute mem vtable n = Some r"
    by assumption
next
  fix f :: "('a::len word \<Rightarrow> 'a word) \<Rightarrow> 'a word \<Rightarrow> 'a word \<Rightarrow> 'a word option"
    and mem vtable n r
  assume "\<And>mem vtable n r. f mem vtable n = Some r \<Longrightarrow> mem (slot vtable r) = 0"
    and "(if mem (slot vtable n) \<noteq> 0 then f mem vtable (n + 1) else Some n) = Some r"
  then show "mem (slot vtable r) = 0"
    by (auto split: if_splits)
qed

lemma Initialize_substitute_size:
  "Initialize e s instance substitute = Some (True, s') \<Longrightarrow>
   memory s' (slot (substitute_vtable s') (substitute_size s')) = 0"
  by (auto simp add: Initialize_def Let_def split: if_splits option.splits
      dest: count_substitute_null)

text \<open>No operation but \<^verbatim>\<open>Initialize\<close> assigns \<^verbatim>\<open>target_size\<close>,
  \<^verbatim>\<open>target_vtable\<close> or \<^verbatim>\<open>original_vtable\<close>.\<close>

lemma write_slot_fields:
  "target_size (write_slot s i v) = target_size s"
  "target_vtable (write_slot s i v) = target_vtable s"
  "original_vtable (write_slot s i v) = original_vtable s"
  "hooks (write_slot s i v) = hooks s"
  "target_cache (write_slot s i v) = target_cache s"
  "substitute_cache (write_slot s i v) = substitute_cache s"
  "substitute_size (write_slot s i v) = substitute_size s"
  "substitute_vtable (write_slot s i v) = substitute_vtable s"
  by (simp_all add: write_slot_def Let_def)

lemma install_hook_fields:
  "target_size (snd (install_hook e s a b)) = target_size s"
  "target_vtable (snd (install_hook e s a b)) = target_vtable s"
  "original_vtable (snd (install_hook e s a b)) = original_vtable s"
  "memory (snd (install_hook e s a b)) = memory s"
  by (simp_all add: install_hook_def Let_def split: prod.splits)

lemma HookInternal_fields:
  "target_size (snd (HookInternal e fr s original substitute)) = target_size s"
  "target_vtable (snd (HookInternal e fr s original substitute)) = target_vtable s"
  "original_vtable (snd (HookInternal e fr s original substitute)) = original_vtable s"
  using GetTarget_fields [of e "fr In_target_resolver" s original]
    GetSubstitute_fields [of e "fr In_substitute_resolver" "snd (GetTargetVirtualAddress e (fr In_target_resolver) s original)" substitute]
  by (auto simp add: HookInternal_def Let_def write_slot_fields install_hook_fields
      split: prod.splits)

lemma HookInternal_fn_fields:
  "target_size (snd (HookInternal_fn e fr s original substitute)) = target_size s"
  "target_vtable (snd (HookInternal_fn e fr s original substitute)) = target_vtable s"
  "original_vtable (snd (HookInternal_fn e fr s original substitute)) = original_vtable s"
  by (simp_all add: HookInternal_fn_def Let_def install_hook_fields)

lemma UnHookInternal_fields:
  "target_size (snd (UnHookInternal e fr s original)) = target_size s"
  "target_vtable (snd (UnHookInternal e fr s original)) = target_vtable s"
  "original_vtable (snd (UnHookInternal e fr s original)) = original_vtable s"
  using GetTarget_fields [of e "fr In_target_resolver" s original]
  by (auto simp add: UnHookInternal_def Let_def write_slot_fields split: prod.splits)

lemma UnHookInternal_fn_fields:
  "target_size (snd (UnHookInternal_fn s original)) = target_size s"
  "target_vtable (snd (UnHookInternal_fn s original)) = target_vtable s"
  "original_vtable (snd (UnHookInternal_fn s original)) = original_vtable s"
  by (simp_all add: UnHookInternal_fn_def)

lemma IsHookedInternal_fields:
  "target_size (snd (IsHookedInternal e fr s original)) = target_size s"
  "target_vtable (snd (IsHookedInternal e fr s original)) = target_vtable s"
  "original_vtable (snd (IsHookedInternal e fr s original)) = original_vtable s"
  using GetTarget_fields [of e "fr In_target_resolver" s original]
  by (auto simp add: IsHookedInternal_def Let_def split: prod.splits)

lemma CallInternal_fields:
  "target_size (snd (CallInternal e fr s instance original)) = target_size s"
  "target_vtable (snd (CallInternal e fr s instance original)) = target_vtable s"
  "original_vtable (snd (CallInternal e fr s instance original)) = original_vtable s"
  using GetTarget_fields [of e "fr In_target_resolver" s original]
  by (auto simp add: CallInternal_def Let_def split: prod.splits)

lemma apply_operation_initialized:
  assumes "target_vtable s \<noteq> 0"
  shows "\<exists>s'. apply_operation e s x = Some s' \<and> target_vtable s' = target_vtable s \<and>
           target_size s' = target_size s \<and> original_vtable s' = original_vtable s"
  using assms
  by (cases x)
    (simp_all add: Initialize_refused HookInternal_fields HookInternal_fn_fields
      UnHookInternal_fields UnHookInternal_fn_fields IsHookedInternal_fields CallInternal_fields)

lemma run_initialized:
  "target_vtable s \<noteq> 0 \<Longrightarrow>
   \<exists>s'. run e s xs = Some s' \<and> target_vtable s' = target_vtable s \<and>
        target_size s' = target_size s \<and> original_vtable s' = original_vtable s"
proof (induction xs arbitrary: s)
  case Nil
  then show ?case by simp
next
  case (Cons x xs)
  obtain s1 where s1: "apply_operation e s x = Some s1" "target_vtable s1 = target_vtable s"
    "target_size s1 = target_size s" "original_vtable s1 = original_vtable s"
    using apply_operation_initialized [OF Cons.prems] by blast
  then have "target_vtable s1 \<noteq> 0"
    using Cons.prems by simp
  from Cons.IH [OF this] s1 show ?case
    by auto
qed

text \<open>
  C6. While \<^verbatim>\<open>target_vtable\<close> is null (no \<^verbatim>\<open>Initialize\<close> has succeeded), an
  \<^verbatim>\<open>Initialize\<close> that returns succeeds exactly when the table pointer read from the
  target instance is not null and the table's first entry passes
  \<^verbatim>\<open>IsExecutableAddress\<close>; and it does return when the substitute's table has a null
  slot at or after index \<^verbatim>\<open>substitute_size\<close>, as a null-terminated table has. After a
  successful \<^verbatim>\<open>Initialize\<close>, and after any run of operations that follows it, every
  \<^verbatim>\<open>Initialize\<close> returns false and leaves the state as it is.
\<close>

theorem Initialize_once:
  "(target_vtable s = 0 \<longrightarrow>
      (\<forall>b s'. Initialize e s instance substitute = Some (b, s') \<longrightarrow>
         b = (GetVirtualTable (memory s) instance \<noteq> 0
              \<and> IsExecutableAddress e (memory s (GetVirtualTable (memory s) instance))))
      \<and> ((\<exists>k. memory s (slot (GetVirtualTable (memory s) substitute)
                    (substitute_size s + of_nat k)) = 0) \<longrightarrow>
           (\<exists>s'. Initialize e s instance substitute =
              Some (GetVirtualTable (memory s) instance \<noteq> 0
                    \<and> IsExecutableAddress e (memory s (GetVirtualTable (memory s) instance)),
                    s'))))
   \<and> (\<forall>s1. Initialize e s instance substitute = Some (True, s1) \<longrightarrow>
         (\<exists>s2. run e s1 ops = Some s2
             \<and> Initialize e s2 instance2 substitute2 = Some (False, s2)))"
proof (intro conjI impI allI)
  fix b s'
  assume "target_vtable s = 0" and "Initialize e s instance substitute = Some (b, s')"
  then show "b = (GetVirtualTable (memory s) instance \<noteq> 0
      \<and> IsExecutableAddress e (memory s (GetVirtualTable (memory s) instance)))"
    by (rule Initialize_result)
next
  assume z: "target_vtable s = 0"
    and "\<exists>k. memory s (slot (GetVirtualTable (memory s) substitute)
                    (substitute_size s + of_nat k)) = 0"
  then obtain k where k: "memory s (slot (GetVirtualTable (memory s) substitute)
                    (substitute_size s + of_nat k)) = 0"
    by blast
  show "\<exists>s'. Initialize e s instance substitute =
              Some (GetVirtualTable (memory s) instance \<noteq> 0
                    \<and> IsExecutableAddress e (memory s (GetVirtualTable (memory s) instance)),
                    s')"
  proof (cases "GetVirtualTable (memory s) instance \<noteq> 0
      \<and> IsExecutableAddress e (memory s (GetVirtualTable (memory s) instance))")
    case True
    then show ?thesis
      using Initialize_valid [OF z _ _ k, of "instance" e] by simp
  next
    case False
    then show ?thesis
      using Initialize_invalid [OF z, of "instance" e substitute] by auto
  qed
next
  fix s1
  assume "Initialize e s instance substitute = Some (True, s1)"
  then have "target_vtable s1 \<noteq> 0"
    by (rule Initialize_success_sets_table)
  then obtain s2 where "run e s1 ops = Some s2" "target_vtable s2 \<noteq> 0"
    using run_initialized [of s1 e ops] by auto
  then show "\<exists>s2. run e s1 ops = Some s2
      \<and> Initialize e s2 instance2 substitute2 = Some (False, s2)"
    by (simp add: Initialize_refused)
qed

text \<open>In the example the first \<^verbatim>\<open>Initialize\<close> succeeds; a second one, at once or
  after a \<^verbatim>\<open>Hook\<close>, is refused and changes nothing.\<close>

theorem Initialize_once_witness:
  "Initialize (ex_env True) (initial_state ex_memory) 0x10000 0x11000
     = Some (True, ex_initialized) \<and>
   run (ex_env True) ex_initialized [Op_Hook ex_frames (ref_at 0x402000) (ref_at 0x502000)]
     = Some ex_hooked \<and>
   Initialize (ex_env True) ex_hooked 0x10000 0x11000 = Some (False, ex_hooked) \<and>
   Initialize (ex_env True) ex_initialized 0x10000 0x11000 = Some (False, ex_initialized)"
proof -
  have i0: "Initialize (ex_env True) (initial_state ex_memory) 0x10000 0x11000
      = Some (True, ex_initialized)"
    using ex_Initialize [of "initial_state ex_memory" Map.empty]
    by (simp add: initial_state_def ex_initialized_def)
  have r: "run (ex_env True) ex_initialized [Op_Hook ex_frames (ref_at 0x402000) (ref_at 0x502000)]
      = Some ex_hooked"
    by (simp add: ex_Hook_slot)
  have r0: "run (ex_env True) ex_initialized [] = Some ex_initialized"
    by simp
  have a: "Initialize (ex_env True) ex_hooked 0x10000 0x11000 = Some (False, ex_hooked)"
    using Initialize_once [of "initial_state ex_memory" "ex_env True" "0x10000" "0x11000"
        "[Op_Hook ex_frames (ref_at 0x402000) (ref_at 0x502000)]" "0x10000" "0x11000"] i0 r
    by (simp del: run.simps)
  have b: "Initialize (ex_env True) ex_initialized 0x10000 0x11000 = Some (False, ex_initialized)"
    using Initialize_once [of "initial_state ex_memory" "ex_env True" "0x10000" "0x11000"
        "[]" "0x10000" "0x11000"] i0
    by simp
  show ?thesis
    using i0 r a b by (simp del: run.simps)
qed

text \<open>
  C10. When \<^verbatim>\<open>Initialize\<close> fails because the table pointer read from the target
  instance is null, or because the table's first entry does not pass
  \<^verbatim>\<open>IsExecutableAddress\<close>, it resets \<^verbatim>\<open>target_vtable\<close> to null and assigns nothing
  else, so the state is the one before the call; a later \<^verbatim>\<open>Initialize\<close> on a valid
  target instance, with a null-terminated substitute table, succeeds.
\<close>

theorem Initialize_failure_keeps_state:
  assumes "target_vtable s = 0"
    and "GetVirtualTable (memory s) instance = 0
      \<or> \<not> IsExecutableAddress e (memory s (GetVirtualTable (memory s) instance))"
  shows "Initialize e s instance substitute = Some (False, s\<lparr>target_vtable := 0\<rparr>)
    \<and> s\<lparr>target_vtable := 0\<rparr> = s
    \<and> (GetVirtualTable (memory s) instance2 \<noteq> 0
        \<and> IsExecutableAddress e (memory s (GetVirtualTable (memory s) instance2))
        \<and> (\<exists>k. memory s (slot (GetVirtualTable (memory s) substitute2)
                     (substitute_size s + of_nat k)) = 0)
      \<longrightarrow> (\<exists>s'. Initialize e (s\<lparr>target_vtable := 0\<rparr>) instance2 substitute2 = Some (True, s')))"
proof -
  have same: "s\<lparr>target_vtable := 0\<rparr> = s"
    using assms(1) by simp
  have fails: "Initialize e s instance substitute = Some (False, s\<lparr>target_vtable := 0\<rparr>)"
    using assms by (rule Initialize_invalid)
  have later: "GetVirtualTable (memory s) instance2 \<noteq> 0
        \<and> IsExecutableAddress e (memory s (GetVirtualTable (memory s) instance2))
        \<and> (\<exists>k. memory s (slot (GetVirtualTable (memory s) substitute2)
                     (substitute_size s + of_nat k)) = 0)
      \<longrightarrow> (\<exists>s'. Initialize e s instance2 substitute2 = Some (True, s'))"
    using Initialize_valid [OF assms(1), of instance2 e substitute2] by blast
  show ?thesis
    using fails later by (simp add: same)
qed

text \<open>In the example the cell at \<open>0x12000\<close> is null, so an object there has no table:
  \<^verbatim>\<open>Initialize\<close> on it fails and changes nothing, and \<^verbatim>\<open>Initialize\<close> on the target
  object then succeeds.\<close>

theorem Initialize_failure_keeps_state_witness:
  "target_vtable (initial_state ex_memory :: (64, 64 word) state) = 0 \<and>
   GetVirtualTable ex_memory 0x12000 = 0 \<and>
   Initialize (ex_env True) (initial_state ex_memory) 0x12000 0x11000
     = Some (False, initial_state ex_memory) \<and>
   Initialize (ex_env True) (initial_state ex_memory) 0x10000 0x11000
     = Some (True, ex_initialized)"
proof -
  let ?s = "initial_state ex_memory :: (64, 64 word) state"
  have z: "target_vtable ?s = 0"
    by (simp add: initial_state_def)
  have n: "GetVirtualTable ex_memory 0x12000 = 0"
    by (simp add: GetVirtualTable_def ex_memory_def)
  have h: "GetVirtualTable (memory ?s) 0x12000 = 0
      \<or> \<not> IsExecutableAddress (ex_env True) (memory ?s (GetVirtualTable (memory ?s) 0x12000))"
    using n by (simp add: initial_state_def)
  have i0: "Initialize (ex_env True) ?s 0x10000 0x11000 = Some (True, ex_initialized)"
    using ex_Initialize [of ?s Map.empty]
    by (simp add: initial_state_def ex_initialized_def)
  show ?thesis
    using Initialize_failure_keeps_state [OF z h, of "0x11000" "0x10000" "0x11000"] z n i0
    by simp
qed

section \<open>The resolution cache\<close>

text \<open>
  What one resolution through \<^verbatim>\<open>GetVirtualAddressInternal\<close> does, in every build: it
  leaves the cache as it was or adds the one entry under its key, and it adds it only when
  the returned index is below the size; a not-found result is not stored. An entry under
  the key is answered as it is, and the table is not read; without one the answer is that
  of \<^verbatim>\<open>GetVirtualAddress\<close>.
\<close>

lemma cache_one_resolution:
  "(let key = GetAddress e pmethod method;
        (m1, c1) = GetVirtualAddressInternal e pmethod mem cache vtable sz method
    in (c1 = cache \<or> (index m1 < sz \<and> cache key = None \<and> c1 = cache(key \<mapsto> m1)))
       \<and> (cache key = None \<longrightarrow> m1 = GetVirtualAddress e mem vtable sz method)
       \<and> (cache key \<noteq> None \<longrightarrow> cache key = Some m1 \<and> c1 = cache))"
  by (auto simp add: GetVirtualAddressInternal_def Let_def split: option.splits prod.splits if_splits)

text \<open>
  Two resolutions of one reference in a row, where both calls of \<^verbatim>\<open>GetAddress\<close> give
  the same key, as they do under MSVC wherever the parameter objects lie: they return the
  same Member and the second leaves the cache alone; once the reference is in the cache
  the answer is the cached Member whatever the table and the memory are; a reference that
  was not found stays out of the cache and is resolved again by every later call.
\<close>

lemma cache_same_key:
  assumes "GetAddress e pmethod' method = GetAddress e pmethod method"
  shows
  "(let key = GetAddress e pmethod method;
        (m1, c1) = GetVirtualAddressInternal e pmethod mem cache vtable sz method;
        (m2, c2) = GetVirtualAddressInternal e pmethod' mem c1 vtable sz method
    in m2 = m1 \<and> c2 = c1
       \<and> (index m1 < sz \<or> cache key \<noteq> None
            \<longrightarrow> c1 key = Some m1
              \<and> (\<forall>mem' vtable' sz'.
                    GetVirtualAddressInternal e pmethod' mem' c1 vtable' sz' method = (m1, c1)))
       \<and> (cache key = None \<and> \<not> index m1 < sz
            \<longrightarrow> c1 = cache
              \<and> (\<forall>mem' vtable' sz'.
                    fst (GetVirtualAddressInternal e pmethod' mem' c1 vtable' sz' method)
                      = GetVirtualAddress e mem' vtable' sz' method)))"
  using assms
  by (auto simp add: GetVirtualAddressInternal_def Let_def split: option.splits prod.splits if_splits)

lemma cache_msvc:
  "build e \<noteq> NON_MSVC \<Longrightarrow> GetAddress e pmethod' method = GetAddress e pmethod method"
  by (rule GetAddress_msvc_storage)

text \<open>
  C7. The claim is that a second resolution of a reference that resolved before is
  answered from the cache, and that an unresolvable reference is resolved again by every
  call. Compiled without \<^verbatim>\<open>_MSC_VER\<close>, the key of the cache is not a property of the
  reference: \<^verbatim>\<open>GetAddress\<close> answers the address of its own parameter object, where the
  MSVC branch reads the value stored there. In the example compiled that way, the reference
  to slot 1 is resolved with the parameter object at \<open>0x7FFE00\<close> and cached under that
  address. Resolved again with the parameter object at \<open>0x7FFD00\<close>, it is not found in
  the cache: the cache gains a second entry, and over a table whose slot 1 has been
  overwritten the answer is another Member, read from the table. And the function at
  \<open>0x403000\<close>, which is in no table and resolves to the not-found Member over the empty
  cache, is answered with the Member of slot 1 once its parameter object lies at
  \<open>0x7FFE00\<close>, where the other reference left an entry.
\<close>

theorem cache_key_is_parameter_address:
  "GetVirtualAddressInternal ex_env_other 0x7FFE00 ex_memory Map.empty 0x20000 3 (ref_at 9)
     = (Member_of 1 0x401100, [0x7FFE00 \<mapsto> Member_of 1 0x401100]) \<and>
   GetVirtualAddressInternal ex_env_other 0x7FFD00 ex_memory [0x7FFE00 \<mapsto> Member_of 1 0x401100]
       0x20000 3 (ref_at 9)
     = (Member_of 1 0x401100,
        [0x7FFE00 \<mapsto> Member_of 1 0x401100, 0x7FFD00 \<mapsto> Member_of 1 0x401100]) \<and>
   GetVirtualAddressInternal ex_env_other 0x7FFD00 (ex_memory(0x20008 := 0x501100))
       [0x7FFE00 \<mapsto> Member_of 1 0x401100] 0x20000 3 (ref_at 9)
     = (Member_of 1 0x501100,
        [0x7FFE00 \<mapsto> Member_of 1 0x401100, 0x7FFD00 \<mapsto> Member_of 1 0x501100]) \<and>
   GetVirtualAddressInternal ex_env_other 0x7FFE00 ex_memory Map.empty 0x20000 3 (ref_at 0x403000)
     = (Member_default, Map.empty) \<and>
   GetVirtualAddressInternal ex_env_other 0x7FFE00 ex_memory [0x7FFE00 \<mapsto> Member_of 1 0x401100]
       0x20000 3 (ref_at 0x403000)
     = (Member_of 1 0x401100, [0x7FFE00 \<mapsto> Member_of 1 0x401100])"
proof -
  have i: "index (Member_of 1 a :: 64 Member) < 3" for a
    by (simp add: Member_of_def word_less_nat_alt)
  show ?thesis
    by (simp add: GetVirtualAddressInternal_def ex_GetAddress_other ex_resolve_other
        ex_memory_cells i sentinel_not_less Let_def)
qed

text \<open>Under MSVC, in the example, the thunk at \<open>0x402000\<close> is cached at its first
  resolution and then answered from the cache even over an empty memory and a null table,
  wherever the parameter objects lie; the function at \<open>0x403000\<close> is not found and not
  cached.\<close>

lemma ex_cache_msvc:
  "GetVirtualAddressInternal (ex_env True) p ex_memory Map.empty 0x20000 3 (ref_at 0x402000)
     = (Member_of 1 0x401100, [0x402000 \<mapsto> Member_of 1 0x401100])"
  "GetVirtualAddressInternal (ex_env True) p (\<lambda>a. 0) [0x402000 \<mapsto> Member_of 1 0x401100] 0 0
       (ref_at 0x402000)
     = (Member_of 1 0x401100, [0x402000 \<mapsto> Member_of 1 0x401100])"
  "GetVirtualAddressInternal (ex_env True) p ex_memory Map.empty 0x20000 3 (ref_at 0x403000)
     = (Member_default, Map.empty)"
proof -
  have i: "index (Member_of 1 a :: 64 Member) < 3" for a
    by (simp add: Member_of_def word_less_nat_alt)
  show "GetVirtualAddressInternal (ex_env True) p ex_memory Map.empty 0x20000 3 (ref_at 0x402000)
     = (Member_of 1 0x401100, [0x402000 \<mapsto> Member_of 1 0x401100])"
    by (simp add: GetVirtualAddressInternal_def ex_GetAddress ex_resolve ex_memory_cells i Let_def)
  show "GetVirtualAddressInternal (ex_env True) p (\<lambda>a. 0) [0x402000 \<mapsto> Member_of 1 0x401100] 0 0
       (ref_at 0x402000)
     = (Member_of 1 0x401100, [0x402000 \<mapsto> Member_of 1 0x401100])"
    by (simp add: GetVirtualAddressInternal_def ex_GetAddress)
  show "GetVirtualAddressInternal (ex_env True) p ex_memory Map.empty 0x20000 3 (ref_at 0x403000)
     = (Member_default, Map.empty)"
    by (simp add: GetVirtualAddressInternal_def ex_GetAddress ex_resolve_none sentinel_not_less
        Let_def)
qed

section \<open>The snapshot\<close>

text \<open>
  C8. After a successful \<^verbatim>\<open>Initialize\<close>, every run of operations returns and leaves
  \<^verbatim>\<open>original_vtable\<close> and \<^verbatim>\<open>target_size\<close> as \<^verbatim>\<open>Initialize\<close> set them; no
  \<^verbatim>\<open>Hook\<close>, \<^verbatim>\<open>UnHook\<close>, \<^verbatim>\<open>IsHooked\<close> or \<^verbatim>\<open>Call\<close> changes
  \<^verbatim>\<open>original_vtable\<close> in any state. A \<^verbatim>\<open>Hook\<close> that succeeds on a reference
  resolving to slot \<open>i\<close> stores the substitute's resolved address into the cell of slot
  \<open>i\<close> of the target table and changes no other cell.
\<close>

theorem snapshot_never_mutated:
  "(Initialize e s0 instance substitute0 = Some (True, s) \<longrightarrow>
      (\<exists>s'. run e s ops = Some s' \<and> original_vtable s' = original_vtable s
            \<and> target_size s' = target_size s))
   \<and> (let (t, s1) = GetTargetVirtualAddress e (fr In_target_resolver) s original;
           (u, s2) = GetSubstituteVirtualAddress e (fr In_substitute_resolver) s1 substitute;
           (ok, s') = HookInternal e fr s original substitute
       in original_vtable s' = original_vtable s
          \<and> (ok \<and> index t < target_size s \<longrightarrow>
               memory s' = (memory s)(slot (target_vtable s) (index t) := address u)))
   \<and> original_vtable (snd (HookInternal_fn e fr s func substitute)) = original_vtable s
   \<and> original_vtable (snd (UnHookInternal e fr s original)) = original_vtable s
   \<and> original_vtable (snd (UnHookInternal_fn s func)) = original_vtable s
   \<and> original_vtable (snd (IsHookedInternal e fr s original)) = original_vtable s
   \<and> original_vtable (snd (CallInternal e fr s instance original)) = original_vtable s"
proof -
  have seq: "Initialize e s0 instance substitute0 = Some (True, s) \<longrightarrow>
      (\<exists>s'. run e s ops = Some s' \<and> original_vtable s' = original_vtable s
            \<and> target_size s' = target_size s)"
  proof
    assume "Initialize e s0 instance substitute0 = Some (True, s)"
    then have "target_vtable s \<noteq> 0"
      by (rule Initialize_success_sets_table)
    then show "\<exists>s'. run e s ops = Some s' \<and> original_vtable s' = original_vtable s
            \<and> target_size s' = target_size s"
      using run_initialized [of s e ops] by auto
  qed
  obtain t s1 where r: "GetTargetVirtualAddress e (fr In_target_resolver) s original = (t, s1)"
    by (cases "GetTargetVirtualAddress e (fr In_target_resolver) s original")
  obtain u s2 where q: "GetSubstituteVirtualAddress e (fr In_substitute_resolver) s1 substitute = (u, s2)"
    by (cases "GetSubstituteVirtualAddress e (fr In_substitute_resolver) s1 substitute")
  have f1: "target_size s1 = target_size s" "target_vtable s1 = target_vtable s"
    "memory s1 = memory s"
    using GetTarget_fields [of e "fr In_target_resolver" s original] by (simp_all add: r)
  have f2: "target_vtable s2 = target_vtable s1" "memory s2 = memory s1"
    using GetSubstitute_fields [of e "fr In_substitute_resolver" s1 substitute] by (simp_all add: q)
  obtain ok s' where h: "HookInternal e fr s original substitute = (ok, s')"
    by (cases "HookInternal e fr s original substitute")
  have snap: "original_vtable s' = original_vtable s"
    using HookInternal_fields [of e fr s original substitute] by (simp add: h)
  have hook: "ok \<and> index t < target_size s \<longrightarrow>
      memory s' = (memory s)(slot (target_vtable s) (index t) := address u)"
    using h by (auto simp add: HookInternal_def r q f1 f2 Let_def write_slot_def split: if_splits)
  show ?thesis
    using seq hook snap
    by (simp add: r q h HookInternal_fn_fields UnHookInternal_fields
        UnHookInternal_fn_fields IsHookedInternal_fields CallInternal_fields)
qed

text \<open>In the example a run of six operations keeps the three snapshot values, and the
  \<^verbatim>\<open>Hook\<close> of slot 1 changes the cell \<open>0x20008\<close> only.\<close>

theorem snapshot_never_mutated_witness:
  "Initialize (ex_env True) (initial_state ex_memory) 0x10000 0x11000
     = Some (True, ex_initialized) \<and>
   (\<exists>s'. run (ex_env True) ex_initialized
           [Op_Hook ex_frames (ref_at 0x402000) (ref_at 0x502000), Op_IsHooked ex_frames (ref_at 0x402000),
            Op_Call ex_frames 0x10000 (ref_at 0x402000), Op_UnHook ex_frames (ref_at 0x402000),
            Op_Hook_fn ex_frames 0x403000 (ref_at 0x503000), Op_UnHook_fn 0x403000]
         = Some s'
       \<and> original_vtable s' = [0x401000, 0x401100, 0x401200] \<and> target_size s' = 3) \<and>
   fst (HookInternal (ex_env True) ex_frames ex_initialized (ref_at 0x402000) (ref_at 0x502000)) = True \<and>
   memory (snd (HookInternal (ex_env True) ex_frames ex_initialized (ref_at 0x402000) (ref_at 0x502000)))
     = ex_memory(0x20008 := 0x501100) \<and>
   original_vtable (snd (HookInternal (ex_env True) ex_frames ex_initialized (ref_at 0x402000)
     (ref_at 0x502000))) = [0x401000, 0x401100, 0x401200]"
proof -
  let ?ops = "[Op_Hook ex_frames (ref_at 0x402000) (ref_at 0x502000), Op_IsHooked ex_frames (ref_at 0x402000),
            Op_Call ex_frames 0x10000 (ref_at 0x402000), Op_UnHook ex_frames (ref_at 0x402000),
            Op_Hook_fn ex_frames 0x403000 (ref_at 0x503000), Op_UnHook_fn 0x403000]"
  have i0: "Initialize (ex_env True) (initial_state ex_memory) 0x10000 0x11000
      = Some (True, ex_initialized)"
    using ex_Initialize [of "initial_state ex_memory" Map.empty]
    by (simp add: initial_state_def ex_initialized_def)
  have t: "GetTargetVirtualAddress (ex_env True) (ex_frames In_target_resolver) ex_initialized (ref_at 0x402000) =
      (Member_of 1 0x401100,
       ex_initialized\<lparr>target_cache := [0x402000 \<mapsto> Member_of 1 0x401100]\<rparr>)"
    by (simp add: ex_target_miss ex_initialized_def ex_memory_cells)
  have u: "GetSubstituteVirtualAddress (ex_env True) (ex_frames In_substitute_resolver)
       (ex_initialized\<lparr>target_cache := [0x402000 \<mapsto> Member_of 1 0x401100]\<rparr>) (ref_at 0x502000) =
      (Member_of 1 0x501100,
       ex_initialized\<lparr>target_cache := [0x402000 \<mapsto> Member_of 1 0x401100],
         substitute_cache := [0x502000 \<mapsto> Member_of 1 0x501100]\<rparr>)"
    by (simp add: ex_substitute_miss ex_initialized_def ex_memory_cells)
  have v: "original_vtable ex_initialized = [0x401000, 0x401100, 0x401200]"
    "target_size ex_initialized = 3" "memory ex_initialized = ex_memory"
    "slot (target_vtable ex_initialized) 1 = 0x20008"
    by (simp_all add: ex_initialized_def slot_def sizeof_ptr_64)
  have i: "index (Member_of 1 0x401100 :: 64 Member) = 1" "(1 :: 64 word) < 3"
    "address (Member_of 1 0x501100 :: 64 Member) = 0x501100"
    by (simp_all add: Member_of_def word_less_nat_alt)
  show ?thesis
    using snapshot_never_mutated [of "ex_env True" "initial_state ex_memory" "0x10000" "0x11000"
        ex_initialized ?ops ex_frames "ref_at 0x402000" "ref_at 0x502000" 0]
    by (simp add: i0 t u v i ex_Hook_slot del: run.simps)
qed

end
